theory Spec2Isabelle
  imports Complex_Main
begin

section \<open>Conventions of the embedding\<close>

text \<open>
  The strategies are Python classes over pandas rows. In this development

  \<^item> every Python \<open>float\<close> is an exact rational (\<open>rat\<close>): sums, products and comparisons
    are those of the mathematical values, with no IEEE rounding, no \<open>inf\<close> and no \<open>NaN\<close>;
    a division whose divisor is zero raises \<open>ZeroDivisionError\<close>, as Python's own
    \<open>float\<close> and \<open>int\<close> division does;
  \<^item> an attribute that holds \<open>None\<close> is \<open>None\<close> of an option type, and arithmetic or
    comparison on it raises \<open>TypeError\<close>;
  \<^item> a timestamp is an integer number of seconds;
  \<^item> a raised exception is the left summand of a sum type; the object under
    construction is lost with it.
\<close>

type_synonym time = int

datatype side = Long | Short

datatype exn =
    ValueError
  | KeyError string
  | TypeError
  | AttributeError
  | ZeroDivisionError
  | UnboundLocalError

section \<open>tools.py: the position\<close>

record position =
  leverage :: int
  open_fee_rate :: rat
  close_fee_rate :: rat
  side :: "side option"
  open_time :: "time option"
  close_time :: "time option"
  open_price :: "rat option"
  close_price :: "rat option"
  open_reason :: "string option"
  close_reason :: "string option"
  open_fee :: "rat option"
  close_fee :: "rat option"
  initial_margin :: "rat option"
  open_notional_value :: "rat option"
  close_notional_value :: "rat option"
  amount :: "rat option"
  net_pnl :: "rat option"
  net_pnl_pct :: "rat option"
  sl_price :: "rat option"
  tp_price :: "rat option"
  liquidation_price :: "rat option"
  behavior :: "side option"

text \<open>One row of the data frame, as far as the position reads it.\<close>

record row =
  row_open :: rat
  row_high :: rat
  row_low :: rat
  row_close :: rat
  close_long :: "bool option"
  close_short :: "bool option"

text \<open>\<open>Position.__init__\<close>: \<open>fee_rate\<close> is the fallback of both fee rates.\<close>

definition Position :: "int \<Rightarrow> rat \<Rightarrow> rat option \<Rightarrow> rat option \<Rightarrow> position" where
  "Position lev fee_rate ofr cfr =
     \<lparr> leverage = lev,
       open_fee_rate = (case ofr of None \<Rightarrow> fee_rate | Some r \<Rightarrow> r),
       close_fee_rate = (case cfr of None \<Rightarrow> fee_rate | Some r \<Rightarrow> r),
       side = None, open_time = None, close_time = None,
       open_price = None, close_price = None,
       open_reason = None, close_reason = None,
       open_fee = None, close_fee = None,
       initial_margin = None,
       open_notional_value = None, close_notional_value = None,
       amount = None, net_pnl = None, net_pnl_pct = None,
       sl_price = None, tp_price = None, liquidation_price = None,
       behavior = None \<rparr>"

subsection \<open>The two behaviours\<close>

text \<open>
  \<open>LongPositionBehavior\<close> and \<open>ShortPositionBehavior\<close>, indexed by the class
  (\<open>Long\<close>, \<open>Short\<close>).
\<close>

fun beh_calculate_pnl :: "side \<Rightarrow> position \<Rightarrow> rat \<Rightarrow> rat option \<Rightarrow> exn + rat" where
  "beh_calculate_pnl Long pos cp am =
     (case (am, open_price pos) of
        (Some a, Some op) \<Rightarrow> Inr (a * (cp - op))
      | _ \<Rightarrow> Inl TypeError)"
| "beh_calculate_pnl Short pos cp am =
     (case (am, open_price pos) of
        (Some a, Some op) \<Rightarrow> Inr (a * (op - cp))
      | _ \<Rightarrow> Inl TypeError)"

fun beh_calculate_liquidation_price :: "side \<Rightarrow> position \<Rightarrow> rat \<Rightarrow> exn + rat" where
  "beh_calculate_liquidation_price Long pos price =
     (if leverage pos = 0 then Inl ZeroDivisionError
      else Inr (price * (1 - 1 / of_int (leverage pos))))"
| "beh_calculate_liquidation_price Short pos price =
     (if leverage pos = 0 then Inl ZeroDivisionError
      else Inr (price * (1 + 1 / of_int (leverage pos))))"

fun beh_check_for_sl :: "side \<Rightarrow> position \<Rightarrow> 'a row_scheme \<Rightarrow> exn + bool" where
  "beh_check_for_sl Long pos r =
     (case sl_price pos of None \<Rightarrow> Inl TypeError | Some sl \<Rightarrow> Inr (row_low r \<le> sl))"
| "beh_check_for_sl Short pos r =
     (case sl_price pos of None \<Rightarrow> Inl TypeError | Some sl \<Rightarrow> Inr (row_high r \<ge> sl))"

fun beh_check_for_tp :: "side \<Rightarrow> position \<Rightarrow> 'a row_scheme \<Rightarrow> exn + bool" where
  "beh_check_for_tp Long pos r =
     (case tp_price pos of None \<Rightarrow> Inl TypeError | Some tp \<Rightarrow> Inr (row_high r \<ge> tp))"
| "beh_check_for_tp Short pos r =
     (case tp_price pos of None \<Rightarrow> Inl TypeError | Some tp \<Rightarrow> Inr (row_low r \<le> tp))"

fun beh_check_for_liquidation :: "side \<Rightarrow> position \<Rightarrow> 'a row_scheme \<Rightarrow> exn + bool" where
  "beh_check_for_liquidation Long pos r =
     (case liquidation_price pos of
        None \<Rightarrow> Inl TypeError | Some lp \<Rightarrow> Inr (row_low r \<le> lp))"
| "beh_check_for_liquidation Short pos r =
     (case liquidation_price pos of
        None \<Rightarrow> Inl TypeError | Some lp \<Rightarrow> Inr (row_high r \<ge> lp))"

subsection \<open>Dispatch through \<open>self.behavior\<close>\<close>

text \<open>Before the first \<open>open\<close> the behaviour is \<open>None\<close>, and a call through it fails.\<close>

definition calculate_pnl :: "position \<Rightarrow> rat \<Rightarrow> rat option \<Rightarrow> exn + rat" where
  "calculate_pnl pos price am =
     (case behavior pos of
        None \<Rightarrow> Inl AttributeError
      | Some b \<Rightarrow> beh_calculate_pnl b pos price am)"

definition calculate_liquidation_price :: "position \<Rightarrow> rat \<Rightarrow> exn + rat" where
  "calculate_liquidation_price pos price =
     (case behavior pos of
        None \<Rightarrow> Inl AttributeError
      | Some b \<Rightarrow> beh_calculate_liquidation_price b pos price)"

definition check_for_liquidation :: "position \<Rightarrow> 'a row_scheme \<Rightarrow> exn + bool" where
  "check_for_liquidation pos r =
     (case behavior pos of
        None \<Rightarrow> Inl AttributeError
      | Some b \<Rightarrow> beh_check_for_liquidation b pos r)"

definition check_for_sl :: "position \<Rightarrow> 'a row_scheme \<Rightarrow> exn + bool" where
  "check_for_sl pos r =
     (case behavior pos of
        None \<Rightarrow> Inl AttributeError
      | Some b \<Rightarrow> beh_check_for_sl b pos r)"

definition check_for_tp :: "position \<Rightarrow> 'a row_scheme \<Rightarrow> exn + bool" where
  "check_for_tp pos r =
     (case behavior pos of
        None \<Rightarrow> Inl AttributeError
      | Some b \<Rightarrow> beh_check_for_tp b pos r)"

subsection \<open>Opening, adding, closing\<close>

text \<open>
  \<open>_calculate_opening_metrics\<close> returns the notional value after the fee, the fee and the
  amount, in this order.
\<close>

definition calculate_opening_metrics :: "position \<Rightarrow> rat \<Rightarrow> rat \<Rightarrow> exn + (rat \<times> rat \<times> rat)" where
  "calculate_opening_metrics pos im op =
     (let onv0 = im * of_int (leverage pos);
          fee = onv0 * open_fee_rate pos;
          onv = onv0 - fee
      in if op = 0 then Inl ZeroDivisionError
         else Inr (onv, fee, onv / op))"

definition position_open ::
  "position \<Rightarrow> time \<Rightarrow> side \<Rightarrow> rat \<Rightarrow> rat \<Rightarrow> string \<Rightarrow> rat option \<Rightarrow> rat option \<Rightarrow> exn + position"
where
  "position_open pos t sd im op reason sl tp =
     (let p1 = pos\<lparr> open_time := Some t, side := Some sd, initial_margin := Some im,
                    open_price := Some op, open_reason := Some reason,
                    sl_price := sl, tp_price := tp, behavior := Some sd \<rparr>
      in case calculate_opening_metrics p1 im op of
           Inl e \<Rightarrow> Inl e
         | Inr (onv, fee, am) \<Rightarrow>
             (let p2 = p1\<lparr> open_fee := Some fee, open_notional_value := Some onv,
                            amount := Some am \<rparr>
              in case calculate_liquidation_price p2 op of
                   Inl e \<Rightarrow> Inl e
                 | Inr lp \<Rightarrow> Inr (p2\<lparr> liquidation_price := Some lp \<rparr>)))"

definition position_close :: "position \<Rightarrow> time \<Rightarrow> rat \<Rightarrow> string \<Rightarrow> exn + position" where
  "position_close pos t price reason =
     (let p1 = pos\<lparr> close_time := Some t, close_price := Some price,
                    close_reason := Some reason \<rparr>
      in case calculate_pnl p1 price (amount p1) of
           Inl e \<Rightarrow> Inl e
         | Inr pnl \<Rightarrow>
             (case (open_notional_value p1, open_fee p1, initial_margin p1) of
                (Some onv, Some ofee, Some im) \<Rightarrow>
                  (let cnv = onv + pnl;
                       cfee = cnv * close_fee_rate p1;
                       np = pnl - ofee - cfee
                   in if im = 0 then Inl ZeroDivisionError
                      else Inr (p1\<lparr> close_notional_value := Some cnv,
                                     close_fee := Some cfee,
                                     net_pnl := Some np,
                                     net_pnl_pct := Some (np / im * 100),
                                     side := None \<rparr>))
              | _ \<Rightarrow> Inl TypeError))"

definition position_add :: "position \<Rightarrow> rat \<Rightarrow> rat \<Rightarrow> string \<Rightarrow> exn + position" where
  "position_add pos im price reason =
     (let p1 = pos\<lparr> open_reason := Some reason \<rparr>
      in case calculate_opening_metrics p1 im price of
           Inl e \<Rightarrow> Inl e
         | Inr (m_onv, m_fee, m_am) \<Rightarrow>
             (case (open_price p1, amount p1, initial_margin p1, open_fee p1,
                    open_notional_value p1) of
                (Some op, Some am, Some im0, Some ofee, Some onv) \<Rightarrow>
                  (if am + m_am = 0 then Inl ZeroDivisionError
                   else
                     (let new_op = (op * am + price * m_am) / (am + m_am);
                          p2 = p1\<lparr> open_price := Some new_op,
                                    initial_margin := Some (im0 + im),
                                    open_fee := Some (ofee + m_fee),
                                    open_notional_value := Some (onv + m_onv),
                                    amount := Some (am + m_am) \<rparr>
                      in case calculate_liquidation_price p2 new_op of
                           Inl e \<Rightarrow> Inl e
                         | Inr lp \<Rightarrow> Inr (p2\<lparr> liquidation_price := Some lp \<rparr>)))
              | _ \<Rightarrow> Inl TypeError))"

text \<open>
  \<open>Position.info\<close> with the two balances that \<open>close_trade\<close> adds. The envelope
  strategy deletes the key \<open>tp_price\<close>: there \<open>t_tp_price\<close> is \<open>None\<close>, and otherwise
  it is \<open>Some\<close> of the attribute.
\<close>

record trade_info =
  t_open_time :: "time option"
  t_close_time :: "time option"
  t_open_reason :: "string option"
  t_close_reason :: "string option"
  t_open_price :: "rat option"
  t_close_price :: "rat option"
  t_initial_margin :: "rat option"
  t_net_pnl :: "rat option"
  t_net_pnl_pct :: "rat option"
  t_open_notional_value :: "rat option"
  t_close_notional_value :: "rat option"
  t_amount :: "rat option"
  t_open_fee :: "rat option"
  t_close_fee :: "rat option"
  t_sl_price :: "rat option"
  t_tp_price :: "rat option option"
  t_liquidation_price :: "rat option"
  open_balance :: rat
  close_balance :: rat

definition info :: "position \<Rightarrow> rat \<Rightarrow> rat \<Rightarrow> trade_info" where
  "info pos ob cb =
     \<lparr> t_open_time = open_time pos, t_close_time = close_time pos,
       t_open_reason = open_reason pos, t_close_reason = close_reason pos,
       t_open_price = open_price pos, t_close_price = close_price pos,
       t_initial_margin = initial_margin pos, t_net_pnl = net_pnl pos,
       t_net_pnl_pct = net_pnl_pct pos,
       t_open_notional_value = open_notional_value pos,
       t_close_notional_value = close_notional_value pos,
       t_amount = amount pos, t_open_fee = open_fee pos, t_close_fee = close_fee pos,
       t_sl_price = sl_price pos, t_tp_price = Some (tp_price pos),
       t_liquidation_price = liquidation_price pos,
       open_balance = ob, close_balance = cb \<rparr>"

subsection \<open>The equity sampler\<close>

record equity_sample =
  e_time :: time
  e_price :: rat
  e_equity :: rat

definition update_equity_record ::
  "time \<Rightarrow> position \<Rightarrow> rat \<Rightarrow> rat \<Rightarrow> time \<Rightarrow> int \<Rightarrow> equity_sample list
     \<Rightarrow> exn + (time \<times> equity_sample list)"
where
  "update_equity_record t pos bal price prev interval rec =
     (if t - prev \<ge> interval then
        (if side pos \<noteq> None then
           (case calculate_pnl pos price (amount pos) of
              Inl e \<Rightarrow> Inl e
            | Inr upnl \<Rightarrow>
                (case (open_notional_value pos, initial_margin pos, open_fee pos) of
                   (Some onv, Some im, Some ofee) \<Rightarrow>
                     (let cfee = (onv + upnl) * close_fee_rate pos;
                          equity = bal + (im + upnl - ofee - cfee)
                      in Inr (t, rec @ [\<lparr> e_time = t, e_price = price, e_equity = equity \<rparr>]))
                 | _ \<Rightarrow> Inl TypeError))
         else Inr (t, rec @ [\<lparr> e_time = t, e_price = price, e_equity = bal \<rparr>]))
      else Inr (prev, rec))"

section \<open>What the two strategies share\<close>

text \<open>
  A run ends in one of three ways: it returns, an exception escapes, or \<open>sys.exit()\<close> is
  called after the liquidation message has been printed. \<open>SystemExit t lp s\<close> keeps the
  time and the liquidation price of the message and the strategy object \<open>s\<close> as it is at
  the call.
\<close>

datatype 's abort = Raised exn | SystemExit time rat 's

definition lift :: "exn + 'a \<Rightarrow> 's abort + 'a" where
  "lift m = (case m of Inl e \<Rightarrow> Inl (Raised e) | Inr x \<Rightarrow> Inr x)"

text \<open>\<open>row[key]\<close> on a column that may be missing.\<close>

definition col :: "string \<Rightarrow> 'a option \<Rightarrow> exn + 'a" where
  "col key v = (case v of None \<Rightarrow> Inl (KeyError key) | Some x \<Rightarrow> Inr x)"

text \<open>
  The keys of \<open>params\<close> that both strategies read. A key that the code tests with \<open>in\<close> or
  sets with \<open>setdefault\<close> is an option; a key that it reads unconditionally is a plain field.
\<close>

record params =
  mode :: "string option"
  position_size_percentage :: "rat option"
  position_size_fixed_amount :: "rat option"

text \<open>The attributes that \<open>__init__\<close> leaves on the object.\<close>

record ('p, 'r) strategy =
  params :: 'p
  data :: "(time \<times> 'r) list"
  ignore_shorts :: bool
  ignore_longs :: bool

text \<open>The attributes that \<open>run_backtest\<close> sets and the loop updates.\<close>

record ('p, 'r) backtest = "('p, 'r) strategy" +
  initial_balance :: rat
  balance :: rat
  position :: position
  equity_update_interval :: int
  previous_equity_update_time :: time
  trades_info :: "trade_info list"
  equity_record :: "equity_sample list"
  final_equity :: "rat option"

text \<open>\<open>datetime(1900, 1, 1)\<close> in seconds from 1970-01-01.\<close>

definition epoch_1900 :: time where
  "epoch_1900 = - 2208988800"

text \<open>
  Python's \<open>round(x, n)\<close> on the exact value: to the nearest multiple of \<open>10\<^sup>-\<^sup>n\<close>, a tie to
  the even one.
\<close>

definition round_half_even :: "rat \<Rightarrow> int" where
  "round_half_even x =
     (let f = \<lfloor>x\<rfloor>; d = x - of_int f
      in if d < 1 / 2 then f
         else if 1 / 2 < d then f + 1
         else if even f then f else f + 1)"

definition py_round :: "rat \<Rightarrow> nat \<Rightarrow> rat" where
  "py_round x n = of_int (round_half_even (x * 10 ^ n)) / 10 ^ n"

text \<open>\<open>str\<close> of a natural number, for the f-strings.\<close>

fun str_nat :: "nat \<Rightarrow> string" where
  "str_nat n =
     (if n < 10 then [''0123456789'' ! n]
      else str_nat (n div 10) @ [''0123456789'' ! (n mod 10)])"

declare str_nat.simps [simp del]

definition str_side :: "side \<Rightarrow> string" where
  "str_side sd = (case sd of Long \<Rightarrow> ''long'' | Short \<Rightarrow> ''short'')"

text \<open>
  The body of the \<open>for\<close> loop of \<open>run_backtest\<close>, over the strategy's own
  \<open>evaluate_orders\<close>: the orders of the bar, then the equity sample at its close price.
\<close>

fun backtest_loop ::
  "(time \<Rightarrow> 'r \<Rightarrow> ('p, 'r, 'z) backtest_scheme
      \<Rightarrow> ('p, 'r, 'z) backtest_scheme abort + ('p, 'r, 'z) backtest_scheme)
   \<Rightarrow> ('r \<Rightarrow> rat) \<Rightarrow> (time \<times> 'r) list \<Rightarrow> ('p, 'r, 'z) backtest_scheme
   \<Rightarrow> ('p, 'r, 'z) backtest_scheme abort + ('p, 'r, 'z) backtest_scheme"
where
  "backtest_loop ev cl [] s = Inr s"
| "backtest_loop ev cl ((t, r) # rest) s =
     (case ev t r s of
        Inl a \<Rightarrow> Inl a
      | Inr s1 \<Rightarrow>
          (case update_equity_record t (position s1) (balance s1) (cl r)
                  (previous_equity_update_time s1) (equity_update_interval s1)
                  (equity_record s1) of
             Inl e \<Rightarrow> Inl (Raised e)
           | Inr (prev, rec) \<Rightarrow>
               backtest_loop ev cl rest
                 (s1\<lparr> previous_equity_update_time := prev, equity_record := rec \<rparr>)))"

text \<open>
  After the loop: \<open>set_index("time")\<close> on the frame of an empty equity record raises
  \<open>KeyError\<close>; otherwise the last sample's equity is rounded to two places.
\<close>

definition finish_backtest ::
  "('p, 'r, 'z) backtest_scheme
     \<Rightarrow> ('p, 'r, 'z) backtest_scheme abort + ('p, 'r, 'z) backtest_scheme"
where
  "finish_backtest s =
     (if equity_record s = [] then Inl (Raised (KeyError ''time''))
      else Inr (s\<lparr> final_equity := Some (py_round (e_equity (last (equity_record s))) 2) \<rparr>))"

text \<open>
  \<open>set_trade_mode\<close> up to the two \<open>populate\<close> calls, which differ: the mode after
  \<open>setdefault\<close>, or the \<open>ValueError\<close>.
\<close>

definition checked_mode :: "string option \<Rightarrow> exn + string" where
  "checked_mode m =
     (let m1 = (case m of None \<Rightarrow> ''both'' | Some x \<Rightarrow> x)
      in if m1 \<notin> set [''long'', ''short'', ''both''] then Inl ValueError else Inr m1)"

section \<open>simple\_sma.py\<close>

record sma_params = params +
  position_size_exposure :: "rat option"
  exposure :: "rat option"

text \<open>
  The rows after \<open>populate_indicators\<close>: the three moving averages come from the \<open>ta\<close>
  library and are part of the input. They are only compared, so \<open>NaN\<close> is \<open>None\<close> here and
  every comparison with it is false. A signal column that no \<open>populate\<close> call has
  written and the input does not hold is \<open>None\<close>: reading it raises \<open>KeyError\<close>.
\<close>

record sma_row = row +
  fastMA :: "rat option"
  slowMA :: "rat option"
  trend :: "rat option"
  open_long :: "bool option"
  open_short :: "bool option"

definition nan_lt :: "rat option \<Rightarrow> rat option \<Rightarrow> bool" where
  "nan_lt a b = (case (a, b) of (Some x, Some y) \<Rightarrow> x < y | _ \<Rightarrow> False)"

definition nan_le :: "rat option \<Rightarrow> rat option \<Rightarrow> bool" where
  "nan_le a b = (case (a, b) of (Some x, Some y) \<Rightarrow> x \<le> y | _ \<Rightarrow> False)"

text \<open>\<open>Series.shift(1)\<close>: every value moves one row down, the first becomes \<open>NaN\<close>.\<close>

definition shift1 :: "'a option list \<Rightarrow> 'a option list" where
  "shift1 xs = (case xs of [] \<Rightarrow> [] | _ # _ \<Rightarrow> None # butlast xs)"

definition sma_populate_long_signals :: "(time \<times> sma_row) list \<Rightarrow> (time \<times> sma_row) list" where
  "sma_populate_long_signals d =
     map (\<lambda>((t, r), pf, ps).
            (t, r\<lparr> close_long := Some (nan_lt (fastMA r) (slowMA r)),
                    open_long := Some (nan_lt (slowMA r) (fastMA r) \<and> nan_le pf ps
                                       \<and> nan_lt (trend r) (Some (row_close r))) \<rparr>))
         (zip d (zip (shift1 (map (\<lambda>(t, r). fastMA r) d))
                     (shift1 (map (\<lambda>(t, r). slowMA r) d))))"

definition sma_populate_short_signals :: "(time \<times> sma_row) list \<Rightarrow> (time \<times> sma_row) list" where
  "sma_populate_short_signals d =
     map (\<lambda>((t, r), pf, ps).
            (t, r\<lparr> close_short := Some (nan_lt (slowMA r) (fastMA r)),
                    open_short := Some (nan_lt (fastMA r) (slowMA r) \<and> nan_le ps pf
                                        \<and> nan_lt (Some (row_close r)) (trend r)) \<rparr>))
         (zip d (zip (shift1 (map (\<lambda>(t, r). fastMA r) d))
                     (shift1 (map (\<lambda>(t, r). slowMA r) d))))"

text \<open>\<open>Strategy.__init__\<close> with \<open>set_trade_mode\<close>.\<close>

definition sma_Strategy ::
  "sma_params \<Rightarrow> (time \<times> sma_row) list \<Rightarrow> exn + (sma_params, sma_row) strategy"
where
  "sma_Strategy ps ohlcv =
     (case checked_mode (mode ps) of
        Inl e \<Rightarrow> Inl e
      | Inr m \<Rightarrow>
          (let ish = (m = ''long'');
               ilo = (m = ''short'');
               d1 = (if \<not> ilo then sma_populate_long_signals ohlcv else ohlcv);
               d2 = (if \<not> ish then sma_populate_short_signals d1 else d1)
           in Inr \<lparr> params = ps\<lparr> mode := Some m \<rparr>, data = d2,
                    ignore_shorts = ish, ignore_longs = ilo \<rparr>))"

definition sma_calculate_long_tp_price :: "sma_row \<Rightarrow> rat" where
  "sma_calculate_long_tp_price r = row_close r * (13 / 10)"

definition sma_calculate_long_sl_price :: "sma_row \<Rightarrow> rat" where
  "sma_calculate_long_sl_price r = row_close r * (85 / 100)"

definition sma_calculate_short_tp_price :: "sma_row \<Rightarrow> rat" where
  "sma_calculate_short_tp_price r = row_close r * (7 / 10)"

definition sma_calculate_short_sl_price :: "sma_row \<Rightarrow> rat" where
  "sma_calculate_short_sl_price r = row_close r * (115 / 100)"

text \<open>
  \<open>calculate_initial_margin\<close>: the first sizing key present decides; with none of the
  three the function falls off its end and returns \<open>None\<close>.
\<close>

definition calculate_initial_margin :: "sma_params \<Rightarrow> rat \<Rightarrow> rat \<Rightarrow> rat \<Rightarrow> exn + rat option" where
  "calculate_initial_margin ps bal price stop_loss_price =
     (case position_size_percentage ps of
        Some pct \<Rightarrow> Inr (Some (bal * pct / 100))
      | None \<Rightarrow>
          (case position_size_exposure ps of
             Some _ \<Rightarrow>
               (case exposure ps of
                  None \<Rightarrow> Inl (KeyError ''exposure'')
                | Some ex \<Rightarrow>
                    (let amount_at_risk = bal * ex / 100
                     in if \<bar>price - stop_loss_price\<bar> = 0 then Inl ZeroDivisionError
                        else Inr (Some (amount_at_risk * price / \<bar>price - stop_loss_price\<bar>))))
           | None \<Rightarrow>
               (case position_size_fixed_amount ps of
                  Some fa \<Rightarrow> Inr (Some fa)
                | None \<Rightarrow> Inr None)))"

type_synonym sma_state = "(sma_params, sma_row) backtest"

definition sma_close_trade :: "sma_state \<Rightarrow> time \<Rightarrow> rat option \<Rightarrow> string \<Rightarrow> exn + sma_state" where
  "sma_close_trade s t price reason =
     (case price of
        None \<Rightarrow> Inl TypeError
      | Some pr \<Rightarrow>
          (case position_close (position s) t pr reason of
             Inl e \<Rightarrow> Inl e
           | Inr p \<Rightarrow>
               (case (initial_margin p, net_pnl p) of
                  (Some im, Some np) \<Rightarrow>
                    (let ob = balance s; cb = ob + (im + np)
                     in Inr (s\<lparr> position := p, balance := cb,
                                  trades_info := trades_info s @ [info p ob cb] \<rparr>))
                | _ \<Rightarrow> Inl TypeError)))"

text \<open>The entry of a flat position: the \<open>else\<close> branch of \<open>evaluate_orders\<close>.\<close>

definition sma_open_side :: "sma_state \<Rightarrow> time \<Rightarrow> sma_row \<Rightarrow> side \<Rightarrow> exn + sma_state" where
  "sma_open_side s t r sd =
     (let price = row_close r;
          sl = (case sd of Long \<Rightarrow> sma_calculate_long_sl_price r
                         | Short \<Rightarrow> sma_calculate_short_sl_price r);
          tp = (case sd of Long \<Rightarrow> sma_calculate_long_tp_price r
                         | Short \<Rightarrow> sma_calculate_short_tp_price r)
      in case calculate_initial_margin (params s) (balance s) price sl of
           Inl e \<Rightarrow> Inl e
         | Inr None \<Rightarrow> Inl TypeError
         | Inr (Some im) \<Rightarrow>
             (case position_open (position s) t sd im price (''Open '' @ str_side sd)
                     (Some sl) (Some tp) of
                Inl e \<Rightarrow> Inl e
              | Inr p \<Rightarrow> Inr (s\<lparr> balance := balance s - im, position := p \<rparr>)))"

definition sma_entries :: "sma_state \<Rightarrow> time \<Rightarrow> sma_row \<Rightarrow> exn + sma_state" where
  "sma_entries s t r =
     (case (if ignore_longs s then Inr False else col ''open_long'' (open_long r)) of
        Inl e \<Rightarrow> Inl e
      | Inr l \<Rightarrow>
          if l then sma_open_side s t r Long
          else
            (case (if ignore_shorts s then Inr False else col ''open_short'' (open_short r)) of
               Inl e \<Rightarrow> Inl e
             | Inr b \<Rightarrow> if b then sma_open_side s t r Short else Inr s))"

text \<open>
  The exits of an open position, in the order of the \<open>if\<close>/\<open>elif\<close> chain. \<open>sd\<close> is the
  value of \<open>self.position.side\<close>; the checks go through \<open>self.position.behavior\<close>.
\<close>

definition sma_exits :: "sma_state \<Rightarrow> time \<Rightarrow> sma_row \<Rightarrow> side \<Rightarrow> sma_state abort + sma_state" where
  "sma_exits s t r sd =
     (case check_for_sl (position s) r of
        Inl e \<Rightarrow> Inl (Raised e)
      | Inr sl_hit \<Rightarrow>
          if sl_hit then
            lift (sma_close_trade s t (sl_price (position s)) (''SL '' @ str_side sd))
          else
            (case check_for_liquidation (position s) r of
               Inl e \<Rightarrow> Inl (Raised e)
             | Inr liq \<Rightarrow>
                 if liq then
                   (case liquidation_price (position s) of
                      None \<Rightarrow> Inl (Raised TypeError)
                    | Some lp \<Rightarrow> Inl (SystemExit t lp s))
                 else
                   (case check_for_tp (position s) r of
                      Inl e \<Rightarrow> Inl (Raised e)
                    | Inr tp_hit \<Rightarrow>
                        if tp_hit then
                          lift (sma_close_trade s t (tp_price (position s))
                                  (''TP '' @ str_side sd))
                        else
                          (case col (''close_'' @ str_side sd)
                                  (case sd of Long \<Rightarrow> close_long r | Short \<Rightarrow> close_short r) of
                             Inl e \<Rightarrow> Inl (Raised e)
                           | Inr ex \<Rightarrow>
                               if ex then
                                 lift (sma_close_trade s t (Some (row_close r))
                                         (''Exit '' @ str_side sd))
                               else Inr s))))"

definition sma_evaluate_orders :: "time \<Rightarrow> sma_row \<Rightarrow> sma_state \<Rightarrow> sma_state abort + sma_state" where
  "sma_evaluate_orders t r s =
     (case side (position s) of
        Some sd \<Rightarrow> sma_exits s t r sd
      | None \<Rightarrow> lift (sma_entries s t r))"

text \<open>The object as \<open>run_backtest\<close> sets it up before the loop.\<close>

definition sma_initial :: "(sma_params, sma_row) strategy \<Rightarrow> rat \<Rightarrow> int \<Rightarrow> rat \<Rightarrow> sma_state" where
  "sma_initial obj ib lev fee_rate =
     \<lparr> params = params obj, data = data obj,
       ignore_shorts = ignore_shorts obj, ignore_longs = ignore_longs obj,
       initial_balance = ib, balance = ib,
       position = Position lev fee_rate None None,
       equity_update_interval = 86400,
       previous_equity_update_time = epoch_1900,
       trades_info = [], equity_record = [], final_equity = None \<rparr>"

definition sma_run_backtest ::
  "(sma_params, sma_row) strategy \<Rightarrow> rat \<Rightarrow> int \<Rightarrow> rat \<Rightarrow> sma_state abort + sma_state"
where
  "sma_run_backtest obj ib lev fee_rate =
     (case backtest_loop sma_evaluate_orders row_close (data obj)
             (sma_initial obj ib lev fee_rate) of
        Inl a \<Rightarrow> Inl a
      | Inr s \<Rightarrow> finish_backtest s)"

section \<open>envelope.py\<close>

record env_params = params +
  average_type :: string
  envelopes :: "rat list"
  stop_loss_pct :: rat
  price_jump_pct :: "rat option"

text \<open>
  The rows after \<open>populate_indicators\<close>: the reference average comes from the \<open>ta\<close>
  library and the band columns from it; both are part of the input, and finite. The
  columns \<open>band_low_k\<close>, \<open>band_high_k\<close>, \<open>open_long_k\<close> and \<open>open_short_k\<close> are keyed by
  the band number \<open>k = i + 1\<close>; a missing column is \<open>None\<close>.
\<close>

record env_row = row +
  average :: rat
  band_high_k :: "nat \<rightharpoonup> rat"
  band_low_k :: "nat \<rightharpoonup> rat"
  open_long_k :: "nat \<rightharpoonup> bool"
  open_short_k :: "nat \<rightharpoonup> bool"

text \<open>\<open>populate_indicators\<close>, as far as it is code of the strategy: the type check.\<close>

definition env_populate_indicators ::
  "env_params \<Rightarrow> (time \<times> env_row) list \<Rightarrow> exn + (time \<times> env_row) list"
where
  "env_populate_indicators ps d =
     (if average_type ps \<in> set [''DCM'', ''SMA'', ''EMA'', ''WMA''] then Inr d
      else Inl ValueError)"

text \<open>
  The signal columns are written for the band numbers \<open>1 \<dots> len(envelopes)\<close>, each from
  the band column of the same number.
\<close>

fun env_long_columns :: "env_row \<Rightarrow> (nat \<rightharpoonup> bool) \<Rightarrow> nat list \<Rightarrow> exn + (nat \<rightharpoonup> bool)" where
  "env_long_columns r m [] = Inr m"
| "env_long_columns r m (i # is) =
     (case col (''band_low_'' @ str_nat (i + 1)) (band_low_k r (i + 1)) of
        Inl e \<Rightarrow> Inl e
      | Inr b \<Rightarrow> env_long_columns r (m(i + 1 \<mapsto> (row_low r \<le> b))) is)"

fun env_short_columns :: "env_row \<Rightarrow> (nat \<rightharpoonup> bool) \<Rightarrow> nat list \<Rightarrow> exn + (nat \<rightharpoonup> bool)" where
  "env_short_columns r m [] = Inr m"
| "env_short_columns r m (i # is) =
     (case col (''band_high_'' @ str_nat (i + 1)) (band_high_k r (i + 1)) of
        Inl e \<Rightarrow> Inl e
      | Inr b \<Rightarrow> env_short_columns r (m(i + 1 \<mapsto> (row_high r \<ge> b))) is)"

fun env_populate_long_signals ::
  "env_params \<Rightarrow> (time \<times> env_row) list \<Rightarrow> exn + (time \<times> env_row) list"
where
  "env_populate_long_signals ps [] = Inr []"
| "env_populate_long_signals ps ((t, r) # rest) =
     (case env_long_columns r (open_long_k r) [0..<length (envelopes ps)] of
        Inl e \<Rightarrow> Inl e
      | Inr m \<Rightarrow>
          (case env_populate_long_signals ps rest of
             Inl e \<Rightarrow> Inl e
           | Inr d \<Rightarrow>
               Inr ((t, r\<lparr> close_long := Some (row_high r \<ge> average r),
                            open_long_k := m \<rparr>) # d)))"

fun env_populate_short_signals ::
  "env_params \<Rightarrow> (time \<times> env_row) list \<Rightarrow> exn + (time \<times> env_row) list"
where
  "env_populate_short_signals ps [] = Inr []"
| "env_populate_short_signals ps ((t, r) # rest) =
     (case env_short_columns r (open_short_k r) [0..<length (envelopes ps)] of
        Inl e \<Rightarrow> Inl e
      | Inr m \<Rightarrow>
          (case env_populate_short_signals ps rest of
             Inl e \<Rightarrow> Inl e
           | Inr d \<Rightarrow>
               Inr ((t, r\<lparr> close_short := Some (row_low r \<le> average r),
                            open_short_k := m \<rparr>) # d)))"

text \<open>
  \<open>Strategy.__init__\<close>. Besides the attributes below it sets \<open>good_to_trade\<close>,
  \<open>position_was_closed\<close> and \<open>n_bands_hit\<close>; they are given these first values where
  \<open>run_backtest\<close> builds the running object.
\<close>

definition env_Strategy ::
  "env_params \<Rightarrow> (time \<times> env_row) list \<Rightarrow> exn + (env_params, env_row) strategy"
where
  "env_Strategy ps ohlcv =
     (case env_populate_indicators ps ohlcv of
        Inl e \<Rightarrow> Inl e
      | Inr d0 \<Rightarrow>
          (case checked_mode (mode ps) of
             Inl e \<Rightarrow> Inl e
           | Inr m \<Rightarrow>
               (let ish = (m = ''long'');
                    ilo = (m = ''short'');
                    ps1 = ps\<lparr> mode := Some m \<rparr>
                in case (if \<not> ilo then env_populate_long_signals ps1 d0 else Inr d0) of
                     Inl e \<Rightarrow> Inl e
                   | Inr d1 \<Rightarrow>
                       (case (if \<not> ish then env_populate_short_signals ps1 d1 else Inr d1) of
                          Inl e \<Rightarrow> Inl e
                        | Inr d2 \<Rightarrow>
                            Inr \<lparr> params = ps1, data = d2,
                                  ignore_shorts = ish, ignore_longs = ilo \<rparr>))))"

text \<open>
  The running object. \<open>last_position_side\<close> is an attribute that only the first entry
  creates: until then it is \<open>None\<close> here, and reading it raises \<open>AttributeError\<close>.
\<close>

record ('p, 'r) env_backtest = "('p, 'r) backtest" +
  good_to_trade :: bool
  position_was_closed :: bool
  n_bands_hit :: nat
  last_position_side :: "side option"

type_synonym env_state = "(env_params, env_row) env_backtest"

definition env_calculate_sl_price :: "env_params \<Rightarrow> side \<Rightarrow> rat \<Rightarrow> rat" where
  "env_calculate_sl_price ps sd avg_open_price =
     (case sd of
        Long \<Rightarrow> avg_open_price * (1 - stop_loss_pct ps)
      | Short \<Rightarrow> avg_open_price * (1 + stop_loss_pct ps))"

text \<open>\<open>close_trade\<close>: as in simple\_sma.py, and the key \<open>tp_price\<close> is deleted.\<close>

definition env_close_trade :: "env_state \<Rightarrow> time \<Rightarrow> rat option \<Rightarrow> string \<Rightarrow> exn + env_state" where
  "env_close_trade s t price reason =
     (case price of
        None \<Rightarrow> Inl TypeError
      | Some pr \<Rightarrow>
          (case position_close (position s) t pr reason of
             Inl e \<Rightarrow> Inl e
           | Inr p \<Rightarrow>
               (case (initial_margin p, net_pnl p) of
                  (Some im, Some np) \<Rightarrow>
                    (let ob = balance s; cb = ob + (im + np)
                     in Inr (s\<lparr> position := p, balance := cb,
                                  trades_info :=
                                    trades_info s @ [(info p ob cb)\<lparr> t_tp_price := None \<rparr>] \<rparr>))
                | _ \<Rightarrow> Inl TypeError)))"

text \<open>The first lines of \<open>evaluate_orders\<close>: the flag of the bar and the gate.\<close>

definition env_gate :: "env_state \<Rightarrow> env_row \<Rightarrow> exn + env_state" where
  "env_gate s r =
     (let s1 = s\<lparr> position_was_closed := False \<rparr>
      in if \<not> good_to_trade s1 then
           (case last_position_side s1 of
              None \<Rightarrow> Inl AttributeError
            | Some Long \<Rightarrow>
                if row_close r > average r then Inr (s1\<lparr> good_to_trade := True \<rparr>)
                else Inr s1
            | Some Short \<Rightarrow>
                if row_close r < average r then Inr (s1\<lparr> good_to_trade := True \<rparr>)
                else Inr s1)
         else Inr s1)"

text \<open>The first condition of each chain: the adverse open, if \<open>price_jump_pct\<close> is configured.\<close>

definition env_price_jump :: "env_state \<Rightarrow> env_row \<Rightarrow> side \<Rightarrow> exn + bool" where
  "env_price_jump s r sd =
     (case price_jump_pct (params s) of
        None \<Rightarrow> Inr False
      | Some pj \<Rightarrow>
          (case open_price (position s) of
             None \<Rightarrow> Inl TypeError
           | Some op \<Rightarrow>
               Inr (case sd of
                      Long \<Rightarrow> row_open r \<le> op * (1 - pj)
                    | Short \<Rightarrow> row_open r \<ge> op * (1 + pj))))"

text \<open>
  The exits of an open position, in the order of the \<open>if\<close>/\<open>elif\<close> chain; \<open>sd\<close> is the
  value of \<open>self.position.side\<close>.
\<close>

definition env_exits :: "env_state \<Rightarrow> time \<Rightarrow> env_row \<Rightarrow> side \<Rightarrow> env_state abort + env_state" where
  "env_exits s t r sd =
     (case env_price_jump s r sd of
        Inl e \<Rightarrow> Inl (Raised e)
      | Inr jump \<Rightarrow>
          if jump then
            (case env_close_trade s t (Some (row_open r)) (''CA '' @ str_side sd) of
               Inl e \<Rightarrow> Inl (Raised e)
             | Inr s1 \<Rightarrow> Inr (s1\<lparr> good_to_trade := False, n_bands_hit := 0 \<rparr>))
          else
            (case check_for_sl (position s) r of
               Inl e \<Rightarrow> Inl (Raised e)
             | Inr sl_hit \<Rightarrow>
                 if sl_hit then
                   (case env_close_trade s t (sl_price (position s)) (''SL '' @ str_side sd) of
                      Inl e \<Rightarrow> Inl (Raised e)
                    | Inr s1 \<Rightarrow> Inr (s1\<lparr> good_to_trade := False, n_bands_hit := 0 \<rparr>))
                 else
                   (case check_for_liquidation (position s) r of
                      Inl e \<Rightarrow> Inl (Raised e)
                    | Inr liq \<Rightarrow>
                        if liq then
                          (case liquidation_price (position s) of
                             None \<Rightarrow> Inl (Raised TypeError)
                           | Some lp \<Rightarrow> Inl (SystemExit t lp s))
                        else
                          (case col (''close_'' @ str_side sd)
                                  (case sd of Long \<Rightarrow> close_long r | Short \<Rightarrow> close_short r) of
                             Inl e \<Rightarrow> Inl (Raised e)
                           | Inr ex \<Rightarrow>
                               if ex then
                                 (case env_close_trade s t (Some (average r))
                                         (''Exit '' @ str_side sd) of
                                    Inl e \<Rightarrow> Inl (Raised e)
                                  | Inr s1 \<Rightarrow>
                                      Inr (s1\<lparr> position_was_closed := True,
                                                 n_bands_hit := 0 \<rparr>))
                               else Inr s))))"

text \<open>
  One pass of the band loop at index \<open>i\<close>: which side, if any, band \<open>i + 1\<close> fills. The
  second operand of each \<open>and\<close> is read only if the first holds.
\<close>

definition env_band_side :: "position \<Rightarrow> env_row \<Rightarrow> nat \<Rightarrow> exn + side option" where
  "env_band_side pos r i =
     (case (if side pos \<noteq> Some Short
            then col (''open_long_'' @ str_nat (i + 1)) (open_long_k r (i + 1))
            else Inr False) of
        Inl e \<Rightarrow> Inl e
      | Inr l \<Rightarrow>
          if l then Inr (Some Long)
          else
            (case (if side pos \<noteq> Some Long
                   then col (''open_short_'' @ str_nat (i + 1)) (open_short_k r (i + 1))
                   else Inr False) of
               Inl e \<Rightarrow> Inl e
             | Inr b \<Rightarrow> Inr (if b then Some Short else None)))"

text \<open>The margin of one band; \<open>bal\<close> is the balance read before the loop.\<close>

definition env_initial_margin :: "env_params \<Rightarrow> rat \<Rightarrow> exn + rat" where
  "env_initial_margin ps bal =
     (let n = length (envelopes ps)
      in case position_size_percentage ps of
           Some pct \<Rightarrow>
             if n = 0 then Inl ZeroDivisionError
             else Inr (bal * py_round (pct / 100 / of_nat n) 4)
         | None \<Rightarrow>
             (case position_size_fixed_amount ps of
                Some fa \<Rightarrow>
                  if n = 0 then Inl ZeroDivisionError
                  else Inr (py_round (fa / of_nat n) 4)
              | None \<Rightarrow> Inl UnboundLocalError))"

text \<open>The rest of the pass, once a side is chosen: the fill of band \<open>i + 1\<close>.\<close>

definition env_fill :: "env_state \<Rightarrow> time \<Rightarrow> env_row \<Rightarrow> rat \<Rightarrow> nat \<Rightarrow> side \<Rightarrow> exn + env_state" where
  "env_fill s t r bal i sd =
     (let s1 = s\<lparr> last_position_side := Some sd \<rparr>;
          reason = ''Open '' @ str_side sd @ '' '' @ str_nat (i + 1)
      in case (case sd of
                 Long \<Rightarrow> col (''band_low_'' @ str_nat (i + 1)) (band_low_k r (i + 1))
               | Short \<Rightarrow> col (''band_high_'' @ str_nat (i + 1)) (band_high_k r (i + 1))) of
           Inl e \<Rightarrow> Inl e
         | Inr price \<Rightarrow>
             (case env_initial_margin (params s1) bal of
                Inl e \<Rightarrow> Inl e
              | Inr im \<Rightarrow>
                  (let s2 = s1\<lparr> balance := balance s1 - im,
                                 n_bands_hit := n_bands_hit s1 + 1 \<rparr>
                   in if i = 0 then
                        (case position_open (position s2) t sd im price reason
                                (Some (env_calculate_sl_price (params s2) sd price)) None of
                           Inl e \<Rightarrow> Inl e
                         | Inr p \<Rightarrow> Inr (s2\<lparr> position := p \<rparr>))
                      else
                        (case position_add (position s2) im price reason of
                           Inl e \<Rightarrow> Inl e
                         | Inr p \<Rightarrow>
                             (case open_price p of
                                None \<Rightarrow> Inl TypeError
                              | Some op \<Rightarrow>
                                  Inr (s2\<lparr> position :=
                                         p\<lparr> sl_price :=
                                              Some (env_calculate_sl_price (params s2) sd op) \<rparr> \<rparr>))))))"

text \<open>The \<open>for\<close> loop over \<open>range(self.n_bands_hit, len(envelopes))\<close>, the range fixed at entry.\<close>

fun env_band_loop ::
  "env_state \<Rightarrow> time \<Rightarrow> env_row \<Rightarrow> rat \<Rightarrow> nat list \<Rightarrow> exn + env_state"
where
  "env_band_loop s t r bal [] = Inr s"
| "env_band_loop s t r bal (i # is) =
     (case env_band_side (position s) r i of
        Inl e \<Rightarrow> Inl e
      | Inr None \<Rightarrow> env_band_loop s t r bal is
      | Inr (Some sd) \<Rightarrow>
          (case env_fill s t r bal i sd of
             Inl e \<Rightarrow> Inl e
           | Inr s1 \<Rightarrow> env_band_loop s1 t r bal is))"

definition env_entries :: "env_state \<Rightarrow> time \<Rightarrow> env_row \<Rightarrow> exn + env_state" where
  "env_entries s t r =
     (if good_to_trade s \<and> \<not> position_was_closed s then
        env_band_loop s t r (balance s) [n_bands_hit s..<length (envelopes (params s))]
      else Inr s)"

definition env_evaluate_orders :: "time \<Rightarrow> env_row \<Rightarrow> env_state \<Rightarrow> env_state abort + env_state" where
  "env_evaluate_orders t r s =
     (case env_gate s r of
        Inl e \<Rightarrow> Inl (Raised e)
      | Inr s1 \<Rightarrow>
          (case (case side (position s1) of
                   Some sd \<Rightarrow> env_exits s1 t r sd
                 | None \<Rightarrow> Inr s1) of
             Inl a \<Rightarrow> Inl a
           | Inr s2 \<Rightarrow> lift (env_entries s2 t r)))"

text \<open>The object as \<open>__init__\<close> and \<open>run_backtest\<close> set it up before the loop.\<close>

definition env_initial ::
  "(env_params, env_row) strategy \<Rightarrow> rat \<Rightarrow> int \<Rightarrow> rat \<Rightarrow> rat \<Rightarrow> env_state"
where
  "env_initial obj ib lev ofr cfr =
     \<lparr> params = params obj, data = data obj,
       ignore_shorts = ignore_shorts obj, ignore_longs = ignore_longs obj,
       initial_balance = ib, balance = ib,
       position = Position lev (1 / 1000) (Some ofr) (Some cfr),
       equity_update_interval = 21600,
       previous_equity_update_time = epoch_1900,
       trades_info = [], equity_record = [], final_equity = None,
       good_to_trade = True, position_was_closed = False, n_bands_hit = 0,
       last_position_side = None \<rparr>"

definition env_run_backtest ::
  "(env_params, env_row) strategy \<Rightarrow> rat \<Rightarrow> int \<Rightarrow> rat \<Rightarrow> rat \<Rightarrow> env_state abort + env_state"
where
  "env_run_backtest obj ib lev ofr cfr =
     (case backtest_loop env_evaluate_orders row_close (data obj)
             (env_initial obj ib lev ofr cfr) of
        Inl a \<Rightarrow> Inl a
      | Inr s \<Rightarrow> finish_backtest s)"

section \<open>Notions that the properties use\<close>

text \<open>
  The balance identity of one ledger entry, over the two balances that the entry itself
  records.
\<close>

definition conserved :: "trade_info \<Rightarrow> bool" where
  "conserved e =
     (case (t_initial_margin e, t_net_pnl e) of
        (Some im, Some np) \<Rightarrow> close_balance e = open_balance e + im + np
      | _ \<Rightarrow> False)"

text \<open>
  The exits of an open position, and the order in which the specification ranks them.
  The first whose condition holds is the one that takes effect.
\<close>

datatype exit_kind = AdverseOpen | StopLoss | Liquidation | TakeProfit | SignalExit

definition priority :: "exit_kind list" where
  "priority = [AdverseOpen, StopLoss, Liquidation, TakeProfit, SignalExit]"

definition first_exit :: "(exit_kind \<Rightarrow> bool) \<Rightarrow> exit_kind option" where
  "first_exit c = find c priority"

text \<open>
  What each exit tests and does in simple\_sma.py (which has no adverse-open guard) and
  in envelope.py (which has no take-profit).
\<close>

definition sma_condition :: "sma_state \<Rightarrow> sma_row \<Rightarrow> side \<Rightarrow> exit_kind \<Rightarrow> bool" where
  "sma_condition s r sd k =
     (case k of
        AdverseOpen \<Rightarrow> False
      | StopLoss \<Rightarrow> check_for_sl (position s) r = Inr True
      | Liquidation \<Rightarrow> check_for_liquidation (position s) r = Inr True
      | TakeProfit \<Rightarrow> check_for_tp (position s) r = Inr True
      | SignalExit \<Rightarrow>
          (case sd of Long \<Rightarrow> close_long r | Short \<Rightarrow> close_short r) = Some True)"

definition sma_effect ::
  "sma_state \<Rightarrow> time \<Rightarrow> sma_row \<Rightarrow> side \<Rightarrow> exit_kind \<Rightarrow> sma_state abort + sma_state"
where
  "sma_effect s t r sd k =
     (case k of
        AdverseOpen \<Rightarrow> Inr s
      | StopLoss \<Rightarrow>
          lift (sma_close_trade s t (sl_price (position s)) (''SL '' @ str_side sd))
      | Liquidation \<Rightarrow>
          (case liquidation_price (position s) of
             None \<Rightarrow> Inl (Raised TypeError)
           | Some lp \<Rightarrow> Inl (SystemExit t lp s))
      | TakeProfit \<Rightarrow>
          lift (sma_close_trade s t (tp_price (position s)) (''TP '' @ str_side sd))
      | SignalExit \<Rightarrow>
          lift (sma_close_trade s t (Some (row_close r)) (''Exit '' @ str_side sd)))"

definition sma_defined :: "sma_state \<Rightarrow> sma_row \<Rightarrow> side \<Rightarrow> bool" where
  "sma_defined s r sd =
     (\<not> isl (check_for_sl (position s) r) \<and> \<not> isl (check_for_liquidation (position s) r)
      \<and> \<not> isl (check_for_tp (position s) r)
      \<and> (case sd of Long \<Rightarrow> close_long r | Short \<Rightarrow> close_short r) \<noteq> None)"

definition env_condition :: "env_state \<Rightarrow> env_row \<Rightarrow> side \<Rightarrow> exit_kind \<Rightarrow> bool" where
  "env_condition s r sd k =
     (case k of
        AdverseOpen \<Rightarrow> env_price_jump s r sd = Inr True
      | StopLoss \<Rightarrow> check_for_sl (position s) r = Inr True
      | Liquidation \<Rightarrow> check_for_liquidation (position s) r = Inr True
      | TakeProfit \<Rightarrow> False
      | SignalExit \<Rightarrow>
          (case sd of Long \<Rightarrow> close_long r | Short \<Rightarrow> close_short r) = Some True)"

definition env_effect ::
  "env_state \<Rightarrow> time \<Rightarrow> env_row \<Rightarrow> side \<Rightarrow> exit_kind \<Rightarrow> env_state abort + env_state"
where
  "env_effect s t r sd k =
     (case k of
        AdverseOpen \<Rightarrow>
          (case env_close_trade s t (Some (row_open r)) (''CA '' @ str_side sd) of
             Inl e \<Rightarrow> Inl (Raised e)
           | Inr s1 \<Rightarrow> Inr (s1\<lparr> good_to_trade := False, n_bands_hit := 0 \<rparr>))
      | StopLoss \<Rightarrow>
          (case env_close_trade s t (sl_price (position s)) (''SL '' @ str_side sd) of
             Inl e \<Rightarrow> Inl (Raised e)
           | Inr s1 \<Rightarrow> Inr (s1\<lparr> good_to_trade := False, n_bands_hit := 0 \<rparr>))
      | Liquidation \<Rightarrow>
          (case liquidation_price (position s) of
             None \<Rightarrow> Inl (Raised TypeError)
           | Some lp \<Rightarrow> Inl (SystemExit t lp s))
      | TakeProfit \<Rightarrow> Inr s
      | SignalExit \<Rightarrow>
          (case env_close_trade s t (Some (average r)) (''Exit '' @ str_side sd) of
             Inl e \<Rightarrow> Inl (Raised e)
           | Inr s1 \<Rightarrow> Inr (s1\<lparr> position_was_closed := True, n_bands_hit := 0 \<rparr>)))"

definition env_defined :: "env_state \<Rightarrow> env_row \<Rightarrow> side \<Rightarrow> bool" where
  "env_defined s r sd =
     (\<not> isl (env_price_jump s r sd) \<and> \<not> isl (check_for_sl (position s) r)
      \<and> \<not> isl (check_for_liquidation (position s) r)
      \<and> (case sd of Long \<Rightarrow> close_long r | Short \<Rightarrow> close_short r) \<noteq> None)"

text \<open>
  The close price of the row is back on the favourable side of the average for a
  position of side \<open>sd\<close>: above it for a long, below it for a short.
\<close>

definition recrossed :: "side \<Rightarrow> env_row \<Rightarrow> bool" where
  "recrossed sd r =
     (case sd of Long \<Rightarrow> row_close r > average r | Short \<Rightarrow> row_close r < average r)"

text \<open>
  What holds of the envelope object whenever a position is open: the last entry was
  on its side, through its behaviour, and the gate is open.
\<close>

definition env_inv :: "env_state \<Rightarrow> bool" where
  "env_inv s =
     (case side (position s) of
        None \<Rightarrow> True
      | Some sd \<Rightarrow>
          last_position_side s = Some sd \<and> behavior (position s) = Some sd
          \<and> good_to_trade s)"

text \<open>The exception that escaped, if one did.\<close>

definition raised_exn :: "'s abort + 'a \<Rightarrow> exn option" where
  "raised_exn m = (case m of Inl (Raised e) \<Rightarrow> Some e | _ \<Rightarrow> None)"

section \<open>Example data\<close>

text \<open>
  A single-entry run of three bars: flat, a long entry signal, a long exit signal. The
  margin is the fixed amount 100.
\<close>

definition ex_sma_params :: sma_params where
  "ex_sma_params =
     \<lparr> mode = None, position_size_percentage = None,
       position_size_fixed_amount = Some 100,
       position_size_exposure = None, exposure = None \<rparr>"

definition ex_sma_row :: "rat \<Rightarrow> rat \<Rightarrow> sma_row" where
  "ex_sma_row f sl =
     \<lparr> row_open = 100, row_high = 105, row_low = 95, row_close = 100,
       close_long = None, close_short = None,
       fastMA = Some f, slowMA = Some sl, trend = Some 50,
       open_long = None, open_short = None \<rparr>"

definition ex_sma_data :: "(time \<times> sma_row) list" where
  "ex_sma_data = [(0, ex_sma_row 1 2), (86400, ex_sma_row 3 2), (172800, ex_sma_row 1 2)]"

text \<open>
  An envelope configuration with two bands, 5 and 10 per cent from the average 100, a
  stop-loss of 10 per cent, an adverse-open guard of 30 per cent, and 200 to place, so
  100 for each band.
\<close>

definition ex_env_params :: env_params where
  "ex_env_params =
     \<lparr> mode = None, position_size_percentage = None,
       position_size_fixed_amount = Some 200,
       average_type = ''SMA'', envelopes = [1 / 20, 1 / 10],
       stop_loss_pct = 1 / 10, price_jump_pct = Some (3 / 10) \<rparr>"

definition ex_env_row :: "rat \<Rightarrow> rat \<Rightarrow> rat \<Rightarrow> rat \<Rightarrow> env_row" where
  "ex_env_row po ph pl pc =
     \<lparr> row_open = po, row_high = ph, row_low = pl, row_close = pc,
       close_long = None, close_short = None,
       average = 100,
       band_high_k = [1 \<mapsto> 2000 / 19, 2 \<mapsto> 1000 / 9],
       band_low_k = [1 \<mapsto> 95, 2 \<mapsto> 90],
       open_long_k = Map.empty, open_short_k = Map.empty \<rparr>"

text \<open>
  Bars for the envelope runs: an entry at the first band; an exit signal; an adverse
  open; a stop-loss; a bar that stays below the average; a bar that closes above it; a
  bar that reaches the second band only.
\<close>

definition ex_env_data :: "(time \<times> env_row) list" where
  "ex_env_data =
     [(0, ex_env_row 100 101 94 96), (21600, ex_env_row 96 100 95 99),
      (43200, ex_env_row 60 62 55 58), (64800, ex_env_row 93 94 80 82),
      (86400, ex_env_row 82 90 81 89), (108000, ex_env_row 99 103 98 101),
      (129600, ex_env_row 94 97 88 92)]"

text \<open>
  The two objects as their constructors return them, and the running object after the
  first \<open>n\<close> bars of a run with balance 1000, leverage \<open>lev\<close> and no fees.
\<close>

definition ex_sma_obj :: "(sma_params, sma_row) strategy" where
  "ex_sma_obj = projr (sma_Strategy ex_sma_params ex_sma_data)"

definition ex_sma_after :: "int \<Rightarrow> nat \<Rightarrow> sma_state" where
  "ex_sma_after lev n =
     projr (backtest_loop sma_evaluate_orders row_close (take n (data ex_sma_obj))
              (sma_initial ex_sma_obj 1000 lev 0))"

definition ex_env_obj :: "(env_params, env_row) strategy" where
  "ex_env_obj = projr (env_Strategy ex_env_params ex_env_data)"

definition ex_env_after :: "int \<Rightarrow> nat \<Rightarrow> env_state" where
  "ex_env_after lev n =
     projr (backtest_loop env_evaluate_orders row_close (take n (data ex_env_obj))
              (env_initial ex_env_obj 1000 lev 0 0))"

text \<open>The row of bar \<open>n\<close> as \<open>iterrows\<close> yields it.\<close>

definition ex_sma_bar :: "nat \<Rightarrow> sma_row" where
  "ex_sma_bar n = snd (data ex_sma_obj ! n)"

definition ex_env_bar :: "nat \<Rightarrow> env_row" where
  "ex_env_bar n = snd (data ex_env_obj ! n)"

section \<open>Properties\<close>

subsection \<open>Closing a trade\<close>

lemma position_close_Inr:
  assumes "position_close pos t pr reason = Inr p"
  shows "side p = None \<and> initial_margin p = initial_margin pos
         \<and> close_reason p = Some reason \<and> close_price p = Some pr \<and> close_time p = Some t
         \<and> behavior p = behavior pos \<and> leverage p = leverage pos
         \<and> open_price p = open_price pos"
  using assms
  by (auto simp: position_close_def Let_def split: option.splits sum.splits if_splits)

lemma sma_close_trade_Inr:
  assumes "sma_close_trade s t price reason = Inr s'"
  shows "\<exists>pr p im np. price = Some pr \<and> position_close (position s) t pr reason = Inr p
           \<and> initial_margin p = Some im \<and> net_pnl p = Some np
           \<and> s' = s\<lparr> position := p, balance := balance s + (im + np),
                      trades_info := trades_info s @ [info p (balance s) (balance s + (im + np))] \<rparr>"
  using assms
  by (auto simp: sma_close_trade_def Let_def split: option.splits sum.splits)

lemma env_close_trade_Inr:
  assumes "env_close_trade s t price reason = Inr s'"
  shows "\<exists>pr p im np. price = Some pr \<and> position_close (position s) t pr reason = Inr p
           \<and> initial_margin p = Some im \<and> net_pnl p = Some np
           \<and> s' = s\<lparr> position := p, balance := balance s + (im + np),
                      trades_info := trades_info s @
                         [(info p (balance s) (balance s + (im + np)))\<lparr> t_tp_price := None \<rparr>] \<rparr>"
  using assms
  by (auto simp: env_close_trade_def Let_def split: option.splits sum.splits)

lemma sma_close_trade_ledger:
  assumes "sma_close_trade s t price reason = Inr s'"
  shows "\<exists>e. trades_info s' = trades_info s @ [e]
           \<and> conserved e
           \<and> open_balance e = balance s
           \<and> close_balance e = balance s'
           \<and> t_close_reason e = Some reason
           \<and> t_close_price e = price
           \<and> side (position s') = None"
proof -
  from sma_close_trade_Inr [OF assms] obtain pr p im np where
    h: "price = Some pr" "position_close (position s) t pr reason = Inr p"
       "initial_margin p = Some im" "net_pnl p = Some np"
       "s' = s\<lparr> position := p, balance := balance s + (im + np),
                 trades_info := trades_info s @ [info p (balance s) (balance s + (im + np))] \<rparr>"
    by blast
  from position_close_Inr [OF h(2)]
  have c: "side p = None" "close_reason p = Some reason" "close_price p = Some pr"
    by simp_all
  from h(1,3,4,5) c show ?thesis
    by (intro exI [of _ "info p (balance s) (balance s + (im + np))"]) (simp add: conserved_def info_def)
qed

lemma env_close_trade_ledger:
  assumes "env_close_trade s t price reason = Inr s'"
  shows "\<exists>e. trades_info s' = trades_info s @ [e]
           \<and> conserved e
           \<and> open_balance e = balance s
           \<and> close_balance e = balance s'
           \<and> t_close_reason e = Some reason
           \<and> t_close_price e = price
           \<and> side (position s') = None"
proof -
  from env_close_trade_Inr [OF assms] obtain pr p im np where
    h: "price = Some pr" "position_close (position s) t pr reason = Inr p"
       "initial_margin p = Some im" "net_pnl p = Some np"
       "s' = s\<lparr> position := p, balance := balance s + (im + np),
                 trades_info := trades_info s @ [(info p (balance s) (balance s + (im + np)))\<lparr> t_tp_price := None \<rparr>] \<rparr>"
    by blast
  from position_close_Inr [OF h(2)]
  have c: "side p = None" "close_reason p = Some reason" "close_price p = Some pr"
    by simp_all
  from h(1,3,4,5) c show ?thesis
    by (intro exI [of _ "(info p (balance s) (balance s + (im + np)))\<lparr> t_tp_price := None \<rparr>"]) (simp add: conserved_def info_def)
qed

subsection \<open>One bar\<close>

lemma lift_Inr [simp]: "(lift m = Inr x) = (m = Inr x)"
  by (cases m) (simp_all add: lift_def)

lemma lift_Inl_Raised: "(lift m = Inl a) = (\<exists>e. m = Inl e \<and> a = Raised e)"
  by (cases m) (auto simp: lift_def)

lemma sma_exits_Inr:
  assumes "sma_exits s t r sd = Inr s'"
  shows "s' = s \<or> (\<exists>price reason. sma_close_trade s t price reason = Inr s')"
  using assms
  by (auto simp: sma_exits_def split: sum.splits if_splits option.splits)

lemma env_exits_Inr:
  assumes "env_exits s t r sd = Inr s'"
  shows "s' = s
         \<or> (\<exists>s1 price reason. env_close_trade s t price reason = Inr s1
              \<and> (s' = s1\<lparr> good_to_trade := False, n_bands_hit := 0 \<rparr>
                 \<or> s' = s1\<lparr> position_was_closed := True, n_bands_hit := 0 \<rparr>))"
  using assms
  by (auto simp: env_exits_def split: sum.splits if_splits option.splits)

lemma sma_open_side_Inr:
  assumes "sma_open_side s t r sd = Inr s'"
  shows "trades_info s' = trades_info s \<and> side (position s') = Some sd"
  using assms
  by (auto simp: sma_open_side_def position_open_def Let_def
           split: sum.splits option.splits prod.splits)

lemma sma_entries_trades:
  assumes "sma_entries s t r = Inr s'"
  shows "trades_info s' = trades_info s"
  using assms
  by (auto simp: sma_entries_def dest: sma_open_side_Inr split: sum.splits if_splits)

lemma env_fill_Inr:
  assumes "env_fill s t r bal i sd = Inr s'"
  shows "trades_info s' = trades_info s \<and> n_bands_hit s' = n_bands_hit s + 1
         \<and> last_position_side s' = Some sd \<and> good_to_trade s' = good_to_trade s
         \<and> position_was_closed s' = position_was_closed s \<and> params s' = params s
         \<and> (\<exists>im. env_initial_margin (params s) bal = Inr im \<and> balance s' = balance s - im)"
  using assms
  by (auto simp: env_fill_def Let_def split: sum.splits option.splits if_splits)

lemma env_band_loop_trades:
  assumes "env_band_loop s t r bal is = Inr s'"
  shows "trades_info s' = trades_info s \<and> good_to_trade s' = good_to_trade s
         \<and> position_was_closed s' = position_was_closed s \<and> params s' = params s"
  using assms
proof (induction "is" arbitrary: s)
  case Nil
  then show ?case by simp
next
  case (Cons i "is")
  then show ?case
    by (auto split: sum.splits option.splits dest!: env_fill_Inr)
qed

lemma env_entries_trades:
  assumes "env_entries s t r = Inr s'"
  shows "trades_info s' = trades_info s"
  using assms
  by (auto simp: env_entries_def dest: env_band_loop_trades split: if_splits)

lemma env_gate_Inr:
  assumes "env_gate s r = Inr s1"
  shows "s1 = s\<lparr> position_was_closed := False \<rparr>
         \<or> s1 = s\<lparr> position_was_closed := False, good_to_trade := True \<rparr>"
  using assms
  by (auto simp: env_gate_def Let_def split: if_splits option.splits side.splits)

subsection \<open>The ledger along a run\<close>

lemma backtest_loop_invariant:
  assumes step: "\<And>t r s s'. ev t r s = Inr s' \<Longrightarrow> Q s \<Longrightarrow> Q s'"
    and upd: "\<And>s prev rec. Q s \<Longrightarrow>
                Q (s\<lparr> previous_equity_update_time := prev, equity_record := rec \<rparr>)"
    and "Q s" and "backtest_loop ev cl d s = Inr s'"
  shows "Q s'"
  using assms(3,4)
proof (induction d arbitrary: s)
  case Nil
  then show ?case by simp
next
  case (Cons x d)
  obtain t r where x: "x = (t, r)" by (cases x)
  from Cons.prems(2) x obtain s1 prev rec where
    a: "ev t r s = Inr s1"
    and b: "backtest_loop ev cl d
              (s1\<lparr> previous_equity_update_time := prev, equity_record := rec \<rparr>) = Inr s'"
    by (auto split: sum.splits prod.splits)
  from step [OF a Cons.prems(1)] have "Q s1" .
  from Cons.IH [OF upd [OF this] b] show ?case .
qed

lemma backtest_loop_append:
  "backtest_loop ev cl (pre @ rest) s =
     (case backtest_loop ev cl pre s of
        Inl a \<Rightarrow> Inl a
      | Inr s1 \<Rightarrow> backtest_loop ev cl rest s1)"
  by (induction pre arbitrary: s) (auto split: sum.splits prod.splits)

lemma sma_step_ledger:
  assumes "sma_evaluate_orders t r s = Inr s'"
  shows "trades_info s' = trades_info s
         \<or> (\<exists>e. trades_info s' = trades_info s @ [e]
             \<and> conserved e
             \<and> open_balance e = balance s
             \<and> close_balance e = balance s')"
proof (cases "side (position s)")
  case None
  with assms show ?thesis
    by (auto simp: sma_evaluate_orders_def dest: sma_entries_trades)
next
  case (Some sd)
  with assms have "sma_exits s t r sd = Inr s'"
    by (simp add: sma_evaluate_orders_def)
  from sma_exits_Inr [OF this] show ?thesis
    by (auto dest!: sma_close_trade_ledger)
qed

lemma env_step_ledger:
  assumes "env_evaluate_orders t r s = Inr s'"
  shows "trades_info s' = trades_info s
         \<or> (\<exists>e. trades_info s' = trades_info s @ [e]
             \<and> conserved e
             \<and> open_balance e = balance s
             \<and> close_balance e = balance s'
             \<and> side (position s') = None \<and> n_bands_hit s' = 0)"
proof -
  from assms obtain s1 s2 where
    g: "env_gate s r = Inr s1"
    and x: "(case side (position s1) of Some sd \<Rightarrow> env_exits s1 t r sd | None \<Rightarrow> Inr s1) = Inr s2"
    and e: "env_entries s2 t r = Inr s'"
    by (auto simp: env_evaluate_orders_def split: sum.splits)
  from env_gate_Inr [OF g] have g1: "trades_info s1 = trades_info s" "balance s1 = balance s"
    by auto
  show ?thesis
  proof (cases "s2 = s1")
    case True
    with e g1 show ?thesis by (auto dest: env_entries_trades)
  next
    case False
    with x obtain sd where sd: "env_exits s1 t r sd = Inr s2"
      by (auto split: option.splits)
    from env_exits_Inr [OF sd] False obtain s3 price reason where
      c: "env_close_trade s1 t price reason = Inr s3"
      and f: "s2 = s3\<lparr> good_to_trade := False, n_bands_hit := 0 \<rparr>
              \<or> s2 = s3\<lparr> position_was_closed := True, n_bands_hit := 0 \<rparr>"
      by blast
    from f e have "s' = s2" by (auto simp: env_entries_def)
    with f env_close_trade_ledger [OF c] g1 show ?thesis by auto
  qed
qed

lemma sma_step_conserved:
  assumes "sma_evaluate_orders t r s = Inr s'" and "list_all conserved (trades_info s)"
  shows "list_all conserved (trades_info s')"
  using sma_step_ledger [OF assms(1)] assms(2) by auto

lemma env_step_conserved:
  assumes "env_evaluate_orders t r s = Inr s'" and "list_all conserved (trades_info s)"
  shows "list_all conserved (trades_info s')"
  using env_step_ledger [OF assms(1)] assms(2) by auto

lemma sma_run_conserved:
  assumes "sma_run_backtest obj ib lev fee = Inr s"
  shows "list_all conserved (trades_info s)"
proof -
  let ?Q = "\<lambda>s :: sma_state. list_all conserved (trades_info s)"
  from assms obtain s1 where
    l: "backtest_loop sma_evaluate_orders row_close (data obj)
          (sma_initial obj ib lev fee) = Inr s1"
    and f: "finish_backtest s1 = Inr s"
    by (auto simp: sma_run_backtest_def split: sum.splits)
  have "?Q s1"
    by (rule backtest_loop_invariant [where Q = ?Q, OF _ _ _ l])
       (auto intro: sma_step_conserved simp: sma_initial_def)
  with f show ?thesis
    by (auto simp: finish_backtest_def split: if_splits)
qed

lemma env_run_conserved:
  assumes "env_run_backtest obj ib lev ofr cfr = Inr s"
  shows "list_all conserved (trades_info s)"
proof -
  let ?Q = "\<lambda>s :: env_state. list_all conserved (trades_info s)"
  from assms obtain s1 where
    l: "backtest_loop env_evaluate_orders row_close (data obj)
          (env_initial obj ib lev ofr cfr) = Inr s1"
    and f: "finish_backtest s1 = Inr s"
    by (auto simp: env_run_backtest_def split: sum.splits)
  have "?Q s1"
    by (rule backtest_loop_invariant [where Q = ?Q, OF _ _ _ l])
       (auto intro: env_step_conserved simp: env_initial_def)
  with f show ?thesis
    by (auto simp: finish_backtest_def split: if_splits)
qed

subsection \<open>Liquidation price of a new position\<close>



subsection \<open>Balance identity of a closed trade\<close>

text \<open>
  C1, as the code has it. Whenever \<open>evaluate_orders\<close> returns, it has left the ledger as
  it was or appended exactly one entry, whatever the close reason. The entry satisfies
  \<open>close_balance = open_balance + initial_margin + net_pnl\<close>, where \<open>open_balance\<close> is the
  balance immediately before the close is credited, that is after every margin of the
  position has been debited, and \<open>close_balance\<close> is the balance at the end of the bar.
\<close>

theorem ledger_entry_conservation:
  "(sma_evaluate_orders t r s = Inr s' \<longrightarrow>
      trades_info s' = trades_info s
      \<or> (\<exists>e. trades_info s' = trades_info s @ [e] \<and> conserved e
               \<and> open_balance e = balance s \<and> close_balance e = balance s'))
   \<and> (env_evaluate_orders t' r' u = Inr u' \<longrightarrow>
      trades_info u' = trades_info u
      \<or> (\<exists>e. trades_info u' = trades_info u @ [e] \<and> conserved e
               \<and> open_balance e = balance u \<and> close_balance e = balance u'))"
  using sma_step_ledger [of t r s s'] env_step_ledger [of t' r' u u'] by blast

theorem ledger_entry_conservation_witness:
  "\<not> isl (sma_evaluate_orders 172800 (ex_sma_bar 2) (ex_sma_after 1 2))
   \<and> \<not> isl (env_evaluate_orders 21600 (ex_env_bar 1) (ex_env_after 1 1))
   \<and> length (trades_info (ex_sma_after 1 2)) = 0
   \<and> length (trades_info (ex_env_after 1 1)) = 0
   \<and> list_all conserved
         (trades_info (projr (sma_evaluate_orders 172800 (ex_sma_bar 2) (ex_sma_after 1 2))))
   \<and> length (trades_info (projr (sma_evaluate_orders 172800 (ex_sma_bar 2) (ex_sma_after 1 2)))) = 1
   \<and> list_all conserved
         (trades_info (projr (env_evaluate_orders 21600 (ex_env_bar 1) (ex_env_after 1 1))))
   \<and> length (trades_info (projr (env_evaluate_orders 21600 (ex_env_bar 1) (ex_env_after 1 1)))) = 1"
proof -
  let ?S = "sma_evaluate_orders 172800 (ex_sma_bar 2) (ex_sma_after 1 2)"
  let ?E = "env_evaluate_orders 21600 (ex_env_bar 1) (ex_env_after 1 1)"
  have a: "\<not> isl ?S" by code_simp
  have b: "\<not> isl ?E" by code_simp
  have c: "length (trades_info (ex_sma_after 1 2)) = 0" by code_simp
  have d: "length (trades_info (ex_env_after 1 1)) = 0" by code_simp
  have e: "length (trades_info (projr ?S)) = 1" by code_simp
  have f: "length (trades_info (projr ?E)) = 1" by code_simp
  from a have a': "?S = Inr (projr ?S)" by simp
  from b have b': "?E = Inr (projr ?E)" by simp
  note th = ledger_entry_conservation
         [of 172800 "ex_sma_bar 2" "ex_sma_after 1 2" "projr ?S"
             21600 "ex_env_bar 1" "ex_env_after 1 1" "projr ?E"]
  from th a' c e have g: "list_all conserved (trades_info (projr ?S))" by auto
  from th b' d f have h: "list_all conserved (trades_info (projr ?E))" by auto
  from a b c d e f g h show ?thesis by blast
qed

text \<open>
  C1 as stated takes the balance before the position was opened. In the example run the
  balance is 1000 before the opening bar and 900 after it; the trade has margin 100 and
  net PnL 0 and closes with balance 1000, not with 1000 + 100 + 0.
\<close>

theorem ledger_balance_before_open_counterexample:
  "\<not> isl (backtest_loop sma_evaluate_orders row_close (data ex_sma_obj)
             (sma_initial ex_sma_obj 1000 1 0))
   \<and> side (position (ex_sma_after 1 1)) = None
   \<and> balance (ex_sma_after 1 1) = 1000
   \<and> side (position (ex_sma_after 1 2)) = Some Long
   \<and> balance (ex_sma_after 1 2) = 900
   \<and> map t_initial_margin (trades_info (ex_sma_after 1 3)) = [Some 100]
   \<and> map t_net_pnl (trades_info (ex_sma_after 1 3)) = [Some 0]
   \<and> map close_balance (trades_info (ex_sma_after 1 3)) = [1000]
   \<and> close_balance (last (trades_info (ex_sma_after 1 3)))
       \<noteq> balance (ex_sma_after 1 1)
          + the (t_initial_margin (last (trades_info (ex_sma_after 1 3))))
          + the (t_net_pnl (last (trades_info (ex_sma_after 1 3))))"
  by code_simp

subsection \<open>Priority of the exits\<close>

lemma not_isl_bool: "\<not> isl (m :: exn + bool) \<Longrightarrow> m = Inr True \<or> m = Inr False"
  by (cases m) auto

lemma sma_exits_priority:
  assumes "sma_defined s r sd"
  shows "sma_exits s t r sd =
           (case first_exit (sma_condition s r sd) of
              None \<Rightarrow> Inr s
            | Some k \<Rightarrow> sma_effect s t r sd k)"
proof -
  from assms have
    a: "check_for_sl (position s) r = Inr True \<or> check_for_sl (position s) r = Inr False"
    and b: "check_for_liquidation (position s) r = Inr True
            \<or> check_for_liquidation (position s) r = Inr False"
    and c: "check_for_tp (position s) r = Inr True \<or> check_for_tp (position s) r = Inr False"
    and d: "(case sd of Long \<Rightarrow> close_long r | Short \<Rightarrow> close_short r) \<noteq> None"
    by (auto simp: sma_defined_def dest: not_isl_bool)
  from d obtain ex where ex: "(case sd of Long \<Rightarrow> close_long r | Short \<Rightarrow> close_short r) = Some ex"
    by blast
  from a b c ex show ?thesis
    by (auto simp: sma_exits_def first_exit_def priority_def sma_condition_def
          sma_effect_def col_def)
qed

lemma env_exits_priority:
  assumes "env_defined s r sd"
  shows "env_exits s t r sd =
           (case first_exit (env_condition s r sd) of
              None \<Rightarrow> Inr s
            | Some k \<Rightarrow> env_effect s t r sd k)"
proof -
  from assms have
    j: "env_price_jump s r sd = Inr True \<or> env_price_jump s r sd = Inr False"
    and a: "check_for_sl (position s) r = Inr True \<or> check_for_sl (position s) r = Inr False"
    and b: "check_for_liquidation (position s) r = Inr True
            \<or> check_for_liquidation (position s) r = Inr False"
    and d: "(case sd of Long \<Rightarrow> close_long r | Short \<Rightarrow> close_short r) \<noteq> None"
    by (auto simp: env_defined_def dest: not_isl_bool)
  from d obtain ex where ex: "(case sd of Long \<Rightarrow> close_long r | Short \<Rightarrow> close_short r) = Some ex"
    by blast
  from j a b ex show ?thesis
    by (auto simp: env_exits_def first_exit_def priority_def env_condition_def
          env_effect_def col_def)
qed

lemma env_effect_entries:
  assumes "env_effect s t r sd k = Inr s2" and "first_exit (env_condition s r sd) = Some k"
  shows "env_entries s2 t r = Inr s2"
  using assms
  by (cases k)
     (auto simp: env_effect_def env_entries_def first_exit_def priority_def env_condition_def
           split: sum.splits if_splits option.splits)


text \<open>
  C3. On a bar that starts with an open position, the outcome is that of the first exit,
  in the order adverse-open guard, stop-loss, liquidation, take-profit, signal exit, whose
  condition holds, and of no other: at most one ledger entry is appended. The envelope
  strategy has no take-profit and the single-entry strategy no adverse-open guard; their
  conditions are constantly false there. The conditions are those of a position whose
  checks do not raise.
\<close>

theorem exits_in_priority_order:
  "(side (position s) = Some sd \<and> sma_defined s r sd \<longrightarrow>
      sma_evaluate_orders t r s =
        (case first_exit (sma_condition s r sd) of
           None \<Rightarrow> Inr s
         | Some k \<Rightarrow> sma_effect s t r sd k)
      \<and> (\<forall>s'. sma_evaluate_orders t r s = Inr s' \<longrightarrow>
             length (trades_info s') \<le> length (trades_info s) + 1))
   \<and> (side (position u) = Some sd' \<and> env_gate u r' = Inr u1 \<and> env_defined u1 r' sd' \<longrightarrow>
      env_evaluate_orders t' r' u =
        (case first_exit (env_condition u1 r' sd') of
           None \<Rightarrow> lift (env_entries u1 t' r')
         | Some k \<Rightarrow> env_effect u1 t' r' sd' k)
      \<and> (\<forall>u'. env_evaluate_orders t' r' u = Inr u' \<longrightarrow>
             length (trades_info u') \<le> length (trades_info u) + 1))"
proof (intro conjI impI allI)
  assume a: "side (position s) = Some sd \<and> sma_defined s r sd"
  then show "sma_evaluate_orders t r s =
        (case first_exit (sma_condition s r sd) of
           None \<Rightarrow> Inr s
         | Some k \<Rightarrow> sma_effect s t r sd k)"
    by (simp add: sma_evaluate_orders_def sma_exits_priority)
next
  fix s' assume "sma_evaluate_orders t r s = Inr s'"
  from sma_step_ledger [OF this]
  show "length (trades_info s') \<le> length (trades_info s) + 1" by auto
next
  assume a: "side (position u) = Some sd' \<and> env_gate u r' = Inr u1 \<and> env_defined u1 r' sd'"
  from a env_gate_Inr [of u r' u1] have sd: "side (position u1) = Some sd'" by auto
  show "env_evaluate_orders t' r' u =
        (case first_exit (env_condition u1 r' sd') of
           None \<Rightarrow> lift (env_entries u1 t' r')
         | Some k \<Rightarrow> env_effect u1 t' r' sd' k)"
  proof (cases "first_exit (env_condition u1 r' sd')")
    case None
    with a sd show ?thesis
      by (simp add: env_evaluate_orders_def env_exits_priority)
  next
    case (Some k)
    show ?thesis
    proof (cases "env_effect u1 t' r' sd' k")
      case (Inl x)
      with a sd Some show ?thesis
        by (simp add: env_evaluate_orders_def env_exits_priority)
    next
      case (Inr u2)
      from env_effect_entries [OF Inr Some] a sd Some Inr show ?thesis
        by (simp add: env_evaluate_orders_def env_exits_priority)
    qed
  qed
next
  fix u' assume "env_evaluate_orders t' r' u = Inr u'"
  from env_step_ledger [OF this]
  show "length (trades_info u') \<le> length (trades_info u) + 1" by auto
qed

theorem exits_in_priority_order_witness:
  "side (position (ex_sma_after 1 2)) = Some Long
   \<and> sma_defined (ex_sma_after 1 2) ((ex_sma_bar 2)\<lparr> row_low := 80 \<rparr>) Long
   \<and> sma_condition (ex_sma_after 1 2) ((ex_sma_bar 2)\<lparr> row_low := 80 \<rparr>) Long SignalExit
   \<and> first_exit (sma_condition (ex_sma_after 1 2) ((ex_sma_bar 2)\<lparr> row_low := 80 \<rparr>) Long)
        = Some StopLoss
   \<and> sma_evaluate_orders 172800 ((ex_sma_bar 2)\<lparr> row_low := 80 \<rparr>) (ex_sma_after 1 2)
        = sma_effect (ex_sma_after 1 2) 172800 ((ex_sma_bar 2)\<lparr> row_low := 80 \<rparr>) Long StopLoss
   \<and> side (position (ex_env_after 1 1)) = Some Long
   \<and> \<not> isl (env_gate (ex_env_after 1 1) ((ex_env_bar 1)\<lparr> row_low := 80 \<rparr>))
   \<and> env_defined (projr (env_gate (ex_env_after 1 1) ((ex_env_bar 1)\<lparr> row_low := 80 \<rparr>)))
         ((ex_env_bar 1)\<lparr> row_low := 80 \<rparr>) Long
   \<and> env_condition (projr (env_gate (ex_env_after 1 1) ((ex_env_bar 1)\<lparr> row_low := 80 \<rparr>)))
         ((ex_env_bar 1)\<lparr> row_low := 80 \<rparr>) Long SignalExit
   \<and> first_exit (env_condition
          (projr (env_gate (ex_env_after 1 1) ((ex_env_bar 1)\<lparr> row_low := 80 \<rparr>)))
          ((ex_env_bar 1)\<lparr> row_low := 80 \<rparr>) Long) = Some StopLoss
   \<and> env_evaluate_orders 21600 ((ex_env_bar 1)\<lparr> row_low := 80 \<rparr>) (ex_env_after 1 1)
        = env_effect (projr (env_gate (ex_env_after 1 1) ((ex_env_bar 1)\<lparr> row_low := 80 \<rparr>)))
            21600 ((ex_env_bar 1)\<lparr> row_low := 80 \<rparr>) Long StopLoss"
proof -
  let ?S = "ex_sma_after 1 2" and ?R = "(ex_sma_bar 2)\<lparr> row_low := 80 \<rparr>"
  let ?U = "ex_env_after 1 1" and ?R' = "(ex_env_bar 1)\<lparr> row_low := 80 \<rparr>"
  let ?U1 = "projr (env_gate ?U ?R')"
  have a: "side (position ?S) = Some Long" by code_simp
  have b: "sma_defined ?S ?R Long" by code_simp
  have c: "sma_condition ?S ?R Long SignalExit" by code_simp
  have d: "first_exit (sma_condition ?S ?R Long) = Some StopLoss" by code_simp
  have e: "side (position ?U) = Some Long" by code_simp
  have f: "\<not> isl (env_gate ?U ?R')" by code_simp
  have g: "env_defined ?U1 ?R' Long" by code_simp
  have h: "env_condition ?U1 ?R' Long SignalExit" by code_simp
  have i: "first_exit (env_condition ?U1 ?R' Long) = Some StopLoss" by code_simp
  from f have f': "env_gate ?U ?R' = Inr ?U1" by simp
  note th = exits_in_priority_order
    [of ?S Long ?R 172800 ?U Long ?R' ?U1 21600]
  from th a b d have j: "sma_evaluate_orders 172800 ?R ?S = sma_effect ?S 172800 ?R Long StopLoss"
    by simp
  from th e f' g i have k: "env_evaluate_orders 21600 ?R' ?U = env_effect ?U1 21600 ?R' Long StopLoss"
    by simp
  from a b c d e f g h i j k show ?thesis by blast
qed

subsection \<open>Liquidation ends the run\<close>

lemma check_for_liquidation_Inr:
  assumes "check_for_liquidation pos r = Inr b"
  shows "\<exists>lp. liquidation_price pos = Some lp"
proof (cases "behavior pos")
  case None
  with assms show ?thesis by (simp add: check_for_liquidation_def)
next
  case (Some x)
  with assms show ?thesis
    by (cases x) (auto simp: check_for_liquidation_def split: option.splits)
qed

lemma sma_liquidation_step:
  assumes "side (position s) = Some sd"
    and "check_for_sl (position s) r = Inr False"
    and "check_for_liquidation (position s) r = Inr True"
  shows "\<exists>lp. liquidation_price (position s) = Some lp
            \<and> sma_evaluate_orders t r s = Inl (SystemExit t lp s)"
  using assms check_for_liquidation_Inr [OF assms(3)]
  by (auto simp: sma_evaluate_orders_def sma_exits_def)

lemma env_liquidation_step:
  assumes "side (position s) = Some sd"
    and "env_gate s r = Inr s1"
    and "env_price_jump s1 r sd = Inr False"
    and "check_for_sl (position s) r = Inr False"
    and "check_for_liquidation (position s) r = Inr True"
  shows "\<exists>lp. liquidation_price (position s) = Some lp
            \<and> env_evaluate_orders t r s = Inl (SystemExit t lp s1)
            \<and> trades_info s1 = trades_info s \<and> position s1 = position s
            \<and> balance s1 = balance s"
proof -
  from env_gate_Inr [OF assms(2)] have p: "position s1 = position s"
    "trades_info s1 = trades_info s" "balance s1 = balance s" by auto
  from check_for_liquidation_Inr [OF assms(5)]
  obtain lp where lp: "liquidation_price (position s) = Some lp" by blast
  with assms p show ?thesis
    by (simp add: env_evaluate_orders_def env_exits_def)
qed

text \<open>
  C2. When the liquidation check of the open position fires on a bar and neither the
  adverse-open guard nor the stop-loss did, the run ends at that bar with \<open>sys.exit()\<close>,
  whatever bars follow, and the ledger of the object at the exit is the ledger from
  before the bar: no entry for the position in flight is appended.
\<close>

theorem liquidation_halts_run:
  "(backtest_loop sma_evaluate_orders row_close pre s0 = Inr s
      \<and> side (position s) = Some sd
      \<and> check_for_sl (position s) r = Inr False
      \<and> check_for_liquidation (position s) r = Inr True \<longrightarrow>
      (\<exists>lp. liquidation_price (position s) = Some lp
         \<and> backtest_loop sma_evaluate_orders row_close (pre @ (t, r) # rest) s0
             = Inl (SystemExit t lp s)))
   \<and> (backtest_loop env_evaluate_orders row_close pre' u0 = Inr u
      \<and> side (position u) = Some sd'
      \<and> env_gate u r' = Inr u1
      \<and> env_price_jump u1 r' sd' = Inr False
      \<and> check_for_sl (position u) r' = Inr False
      \<and> check_for_liquidation (position u) r' = Inr True \<longrightarrow>
      (\<exists>lp. liquidation_price (position u) = Some lp
         \<and> backtest_loop env_evaluate_orders row_close (pre' @ (t', r') # rest') u0
             = Inl (SystemExit t' lp u1)
         \<and> trades_info u1 = trades_info u \<and> position u1 = position u
         \<and> balance u1 = balance u))"
proof (intro conjI impI)
  assume a: "backtest_loop sma_evaluate_orders row_close pre s0 = Inr s
      \<and> side (position s) = Some sd
      \<and> check_for_sl (position s) r = Inr False
      \<and> check_for_liquidation (position s) r = Inr True"
  with sma_liquidation_step [of s sd r t] obtain lp where
    "liquidation_price (position s) = Some lp"
    "sma_evaluate_orders t r s = Inl (SystemExit t lp s)" by blast
  with a show "\<exists>lp. liquidation_price (position s) = Some lp
         \<and> backtest_loop sma_evaluate_orders row_close (pre @ (t, r) # rest) s0
             = Inl (SystemExit t lp s)"
    by (simp add: backtest_loop_append)
next
  assume a: "backtest_loop env_evaluate_orders row_close pre' u0 = Inr u
      \<and> side (position u) = Some sd'
      \<and> env_gate u r' = Inr u1
      \<and> env_price_jump u1 r' sd' = Inr False
      \<and> check_for_sl (position u) r' = Inr False
      \<and> check_for_liquidation (position u) r' = Inr True"
  with env_liquidation_step [of u sd' r' u1 t'] obtain lp where
    "liquidation_price (position u) = Some lp"
    "env_evaluate_orders t' r' u = Inl (SystemExit t' lp u1)"
    "trades_info u1 = trades_info u" "position u1 = position u" "balance u1 = balance u"
    by blast
  with a show "\<exists>lp. liquidation_price (position u) = Some lp
         \<and> backtest_loop env_evaluate_orders row_close (pre' @ (t', r') # rest') u0
             = Inl (SystemExit t' lp u1)
         \<and> trades_info u1 = trades_info u \<and> position u1 = position u
         \<and> balance u1 = balance u"
    by (simp add: backtest_loop_append)
qed

theorem liquidation_halts_run_witness:
  "\<not> isl (backtest_loop sma_evaluate_orders row_close (take 2 (data ex_sma_obj))
             (sma_initial ex_sma_obj 1000 10 0))
   \<and> side (position (ex_sma_after 10 2)) = Some Long
   \<and> check_for_sl (position (ex_sma_after 10 2)) ((ex_sma_bar 2)\<lparr> row_low := 88 \<rparr>) = Inr False
   \<and> check_for_liquidation (position (ex_sma_after 10 2)) ((ex_sma_bar 2)\<lparr> row_low := 88 \<rparr>)
        = Inr True
   \<and> backtest_loop sma_evaluate_orders row_close
        (take 2 (data ex_sma_obj) @ (172800, (ex_sma_bar 2)\<lparr> row_low := 88 \<rparr>)
           # [(259200, ex_sma_bar 1)])
        (sma_initial ex_sma_obj 1000 10 0)
       = Inl (SystemExit 172800 90 (ex_sma_after 10 2))
   \<and> trades_info (ex_sma_after 10 2) = []
   \<and> \<not> isl (backtest_loop env_evaluate_orders row_close (take 1 (data ex_env_obj))
               (env_initial ex_env_obj 1000 20 0 0))
   \<and> side (position (ex_env_after 20 1)) = Some Long
   \<and> \<not> isl (env_gate (ex_env_after 20 1) ((ex_env_bar 1)\<lparr> row_low := 90 \<rparr>))
   \<and> env_price_jump (projr (env_gate (ex_env_after 20 1) ((ex_env_bar 1)\<lparr> row_low := 90 \<rparr>)))
        ((ex_env_bar 1)\<lparr> row_low := 90 \<rparr>) Long = Inr False
   \<and> check_for_sl (position (ex_env_after 20 1)) ((ex_env_bar 1)\<lparr> row_low := 90 \<rparr>) = Inr False
   \<and> check_for_liquidation (position (ex_env_after 20 1)) ((ex_env_bar 1)\<lparr> row_low := 90 \<rparr>)
        = Inr True
   \<and> backtest_loop env_evaluate_orders row_close
        (take 1 (data ex_env_obj) @ (21600, (ex_env_bar 1)\<lparr> row_low := 90 \<rparr>)
           # [(43200, ex_env_bar 0)])
        (env_initial ex_env_obj 1000 20 0 0)
       = Inl (SystemExit 21600 (361 / 4)
                (projr (env_gate (ex_env_after 20 1) ((ex_env_bar 1)\<lparr> row_low := 90 \<rparr>))))
   \<and> trades_info (projr (env_gate (ex_env_after 20 1) ((ex_env_bar 1)\<lparr> row_low := 90 \<rparr>))) = []"
proof -
  let ?pre = "take 2 (data ex_sma_obj)" and ?s0 = "sma_initial ex_sma_obj 1000 10 0"
  let ?S = "ex_sma_after 10 2" and ?R = "(ex_sma_bar 2)\<lparr> row_low := 88 \<rparr>"
  let ?pre' = "take 1 (data ex_env_obj)" and ?u0 = "env_initial ex_env_obj 1000 20 0 0"
  let ?U = "ex_env_after 20 1" and ?R' = "(ex_env_bar 1)\<lparr> row_low := 90 \<rparr>"
  let ?U1 = "projr (env_gate ?U ?R')"
  have a: "\<not> isl (backtest_loop sma_evaluate_orders row_close ?pre ?s0)" by code_simp
  have b: "side (position ?S) = Some Long" by code_simp
  have c: "check_for_sl (position ?S) ?R = Inr False" by code_simp
  have d: "check_for_liquidation (position ?S) ?R = Inr True" by code_simp
  have e: "liquidation_price (position ?S) = Some 90" by code_simp
  have f: "trades_info ?S = []" by code_simp
  have g: "\<not> isl (backtest_loop env_evaluate_orders row_close ?pre' ?u0)" by code_simp
  have h: "side (position ?U) = Some Long" by code_simp
  have i: "\<not> isl (env_gate ?U ?R')" by code_simp
  have j: "env_price_jump ?U1 ?R' Long = Inr False" by code_simp
  have k: "check_for_sl (position ?U) ?R' = Inr False" by code_simp
  have l: "check_for_liquidation (position ?U) ?R' = Inr True" by code_simp
  have m: "liquidation_price (position ?U) = Some (361 / 4)" by code_simp
  have n: "trades_info ?U1 = []" by code_simp
  from a have a': "backtest_loop sma_evaluate_orders row_close ?pre ?s0 = Inr ?S"
    by (simp add: ex_sma_after_def)
  from g have g': "backtest_loop env_evaluate_orders row_close ?pre' ?u0 = Inr ?U"
    by (simp add: ex_env_after_def)
  from i have i': "env_gate ?U ?R' = Inr ?U1" by simp
  note th = liquidation_halts_run
    [of ?pre ?s0 ?S Long ?R 172800 "[(259200, ex_sma_bar 1)]"
        ?pre' ?u0 ?U Long ?R' ?U1 21600 "[(43200, ex_env_bar 0)]"]
  from th a' b c d e have p:
    "backtest_loop sma_evaluate_orders row_close
        (?pre @ (172800, ?R) # [(259200, ex_sma_bar 1)]) ?s0
       = Inl (SystemExit 172800 90 ?S)"
    by auto
  from th g' h i' j k l m have q:
    "backtest_loop env_evaluate_orders row_close
        (?pre' @ (21600, ?R') # [(43200, ex_env_bar 0)]) ?u0
       = Inl (SystemExit 21600 (361 / 4) ?U1)"
    by auto
  from a b c d p f g h i j k l q n show ?thesis by blast
qed

subsection \<open>The gate of the envelope strategy\<close>

lemma env_gate_closed_step:
  assumes "\<not> good_to_trade s" and "last_position_side s = Some sd"
    and "side (position s) = None" and "\<not> recrossed sd r"
  shows "env_evaluate_orders t r s = Inr (s\<lparr> position_was_closed := False \<rparr>)"
  using assms
  by (cases sd)
     (simp_all add: env_evaluate_orders_def env_gate_def recrossed_def env_entries_def Let_def)

lemma env_gate_reopens:
  assumes "\<not> good_to_trade s" and "last_position_side s = Some sd"
    and "side (position s) = None" and "recrossed sd r"
  shows "env_evaluate_orders t r s =
           lift (env_band_loop (s\<lparr> position_was_closed := False, good_to_trade := True \<rparr>)
                   t r (balance s) [n_bands_hit s..<length (envelopes (params s))])"
  using assms
  by (cases sd)
     (simp_all add: env_evaluate_orders_def env_gate_def recrossed_def env_entries_def Let_def)

lemma update_equity_record_flat:
  assumes "side pos = None"
  shows "\<exists>prev' rec'. update_equity_record t pos bal price prev interval rec = Inr (prev', rec')"
  using assms by (simp add: update_equity_record_def)

lemma env_gate_closed_loop:
  assumes "\<not> good_to_trade s" and "last_position_side s = Some sd"
    and "side (position s) = None" and "\<forall>x \<in> set bars. \<not> recrossed sd (snd x)"
  shows "\<exists>s'. backtest_loop env_evaluate_orders row_close bars s = Inr s'
           \<and> position s' = position s \<and> balance s' = balance s
           \<and> trades_info s' = trades_info s \<and> \<not> good_to_trade s'
           \<and> last_position_side s' = Some sd \<and> n_bands_hit s' = n_bands_hit s"
  using assms
proof (induction bars arbitrary: s)
  case Nil
  then show ?case by simp
next
  case (Cons x bars)
  obtain t r where x: "x = (t, r)" by (cases x)
  from Cons.prems x have nr: "\<not> recrossed sd r" by simp
  let ?s1 = "s\<lparr> position_was_closed := False \<rparr>"
  from env_gate_closed_step [OF Cons.prems(1-3) nr]
  have st: "env_evaluate_orders t r s = Inr ?s1" .
  from Cons.prems(3) update_equity_record_flat [of "position ?s1" t "balance ?s1" "row_close r"
      "previous_equity_update_time ?s1" "equity_update_interval ?s1" "equity_record ?s1"]
  obtain prev' rec' where
    eq: "update_equity_record t (position ?s1) (balance ?s1) (row_close r)
           (previous_equity_update_time ?s1) (equity_update_interval ?s1) (equity_record ?s1)
         = Inr (prev', rec')" by auto
  let ?s2 = "?s1\<lparr> previous_equity_update_time := prev', equity_record := rec' \<rparr>"
  from Cons.prems have
    "\<not> good_to_trade ?s2" "last_position_side ?s2 = Some sd" "side (position ?s2) = None"
    "\<forall>x \<in> set bars. \<not> recrossed sd (snd x)" by simp_all
  from Cons.IH [OF this] obtain s' where
    "backtest_loop env_evaluate_orders row_close bars ?s2 = Inr s'"
    "position s' = position ?s2" "balance s' = balance ?s2"
    "trades_info s' = trades_info ?s2" "\<not> good_to_trade s'"
    "last_position_side s' = Some sd" "n_bands_hit s' = n_bands_hit ?s2" by blast
  with x st eq show ?case by simp
qed

lemma env_gated_close:
  assumes "env_close_trade s t price reason = Inr s1"
    and "s2 = s1\<lparr> good_to_trade := False, n_bands_hit := 0 \<rparr>"
  shows "(\<exists>e. trades_info s2 = trades_info s @ [e] \<and> conserved e
               \<and> t_close_price e = price \<and> t_close_reason e = Some reason
               \<and> open_balance e = balance s \<and> close_balance e = balance s2)
         \<and> side (position s2) = None \<and> \<not> good_to_trade s2 \<and> n_bands_hit s2 = 0
         \<and> last_position_side s2 = last_position_side s
         \<and> env_entries s2 t r = Inr s2"
proof -
  from env_close_trade_Inr [OF assms(1)] have "last_position_side s1 = last_position_side s"
    by auto
  with env_close_trade_ledger [OF assms(1)] assms(2) show ?thesis
    by (auto simp: env_entries_def)
qed

lemma env_inv_open:
  assumes "env_inv s" and "side (position s) = Some sd"
  shows "last_position_side s = Some sd \<and> behavior (position s) = Some sd \<and> good_to_trade s
         \<and> env_gate s r = Inr (s\<lparr> position_was_closed := False \<rparr>)"
  using assms by (simp add: env_inv_def env_gate_def Let_def)

lemma env_price_jump_flag [simp]:
  "env_price_jump (s\<lparr> position_was_closed := b \<rparr>) r sd = env_price_jump s r sd"
  by (simp add: env_price_jump_def split: option.splits)

text \<open>The bar of an open position whose first exit is the guard or the stop-loss.\<close>

lemma env_gated_exit_bar:
  assumes inv: "env_inv s" and sd: "side (position s) = Some sd"
    and ex: "env_price_jump s r sd = Inr True \<and> price = Some (row_open r) \<and> tag = ''CA ''
             \<or> env_price_jump s r sd = Inr False \<and> check_for_sl (position s) r = Inr True
               \<and> price = sl_price (position s) \<and> tag = ''SL ''"
    and ev: "env_evaluate_orders t r s = Inr s'"
  shows "(\<exists>e. trades_info s' = trades_info s @ [e] \<and> conserved e
               \<and> t_close_price e = price \<and> t_close_reason e = Some (tag @ str_side sd)
               \<and> open_balance e = balance s \<and> close_balance e = balance s')
         \<and> side (position s') = None \<and> \<not> good_to_trade s' \<and> n_bands_hit s' = 0
         \<and> last_position_side s' = Some sd"
proof -
  let ?s1 = "s\<lparr> position_was_closed := False \<rparr>"
  from env_inv_open [OF inv sd] have g: "env_gate s r = Inr ?s1"
    and l: "last_position_side s = Some sd" by auto
  from ex have "\<exists>s2. env_close_trade ?s1 t price (tag @ str_side sd) = Inr s2
                  \<and> env_exits ?s1 t r sd = Inr (s2\<lparr> good_to_trade := False, n_bands_hit := 0 \<rparr>)"
  proof
    assume a: "env_price_jump s r sd = Inr True \<and> price = Some (row_open r) \<and> tag = ''CA ''"
    with ev g sd show ?thesis
      by (auto simp: env_evaluate_orders_def env_exits_def split: sum.splits)
  next
    assume a: "env_price_jump s r sd = Inr False \<and> check_for_sl (position s) r = Inr True
               \<and> price = sl_price (position s) \<and> tag = ''SL ''"
    with ev g sd show ?thesis
      by (auto simp: env_evaluate_orders_def env_exits_def split: sum.splits)
  qed
  then obtain s2 where
    c: "env_close_trade ?s1 t price (tag @ str_side sd) = Inr s2"
    and x: "env_exits ?s1 t r sd = Inr (s2\<lparr> good_to_trade := False, n_bands_hit := 0 \<rparr>)"
    by blast
  let ?s3 = "s2\<lparr> good_to_trade := False, n_bands_hit := 0 \<rparr>"
  note gc = env_gated_close [OF c refl, of r]
  from gc have "env_entries ?s3 t r = Inr ?s3" by blast
  with ev g sd x have "s' = ?s3"
    by (simp add: env_evaluate_orders_def)
  with gc l show ?thesis by simp
qed

lemma env_inv_initial: "env_inv (env_initial obj ib lev ofr cfr)"
  by (simp add: env_inv_def env_initial_def Position_def)

lemma env_band_side_open:
  assumes "env_band_side pos r i = Inr (Some sd)" and "side pos = Some x"
  shows "sd = x"
  using assms
  by (cases x) (auto simp: env_band_side_def split: sum.splits if_splits)

lemma position_open_side:
  assumes "position_open pos t sd im price reason sl tp = Inr p"
  shows "side p = Some sd \<and> behavior p = Some sd"
  using assms
  by (auto simp: position_open_def Let_def split: sum.splits prod.splits)

lemma position_add_side:
  assumes "position_add pos im price reason = Inr p"
  shows "side p = side pos \<and> behavior p = behavior pos"
  using assms
  by (auto simp: position_add_def Let_def split: sum.splits prod.splits option.splits if_splits)

lemma env_fill_inv:
  assumes "env_fill s t r bal i sd = Inr s'" and "good_to_trade s"
    and "side (position s) = None \<or> side (position s) = Some sd" and "env_inv s"
  shows "env_inv s'"
proof (cases "i = 0")
  case True
  with assms(1) obtain price im p where
    "position_open (position s) t sd im price
       (''Open '' @ str_side sd @ '' '' @ str_nat (i + 1))
       (Some (env_calculate_sl_price (params s) sd price)) None = Inr p"
    and "s' = s\<lparr> last_position_side := Some sd, balance := balance s - im,
                  n_bands_hit := n_bands_hit s + 1, position := p \<rparr>"
    by (auto simp: env_fill_def Let_def split: sum.splits)
  with position_open_side [OF this(1)] assms(2) show ?thesis
    by (simp add: env_inv_def)
next
  case False
  with assms(1) obtain price im p op where
    a: "position_add (position s) im price
       (''Open '' @ str_side sd @ '' '' @ str_nat (i + 1)) = Inr p"
    and b: "s' = s\<lparr> last_position_side := Some sd, balance := balance s - im,
                  n_bands_hit := n_bands_hit s + 1,
                  position := p\<lparr> sl_price := Some (env_calculate_sl_price (params s) sd op) \<rparr> \<rparr>"
    by (auto simp: env_fill_def Let_def split: sum.splits option.splits)
  from position_add_side [OF a] have c: "side p = side (position s)" by simp
  from position_add_side [OF a] have d: "behavior p = behavior (position s)" by simp
  from assms(3) show ?thesis
  proof
    assume "side (position s) = None"
    with b c show ?thesis by (simp add: env_inv_def)
  next
    assume "side (position s) = Some sd"
    with b c d assms(2,4) show ?thesis by (simp add: env_inv_def)
  qed
qed

lemma env_band_loop_inv:
  assumes "env_band_loop s t r bal is = Inr s'" and "good_to_trade s" and "env_inv s"
  shows "env_inv s'"
  using assms
proof (induction "is" arbitrary: s)
  case Nil
  then show ?case by simp
next
  case (Cons i "is")
  show ?case
  proof (cases "env_band_side (position s) r i")
    case (Inl e)
    with Cons.prems show ?thesis by simp
  next
    case (Inr sel)
    show ?thesis
    proof (cases sel)
      case None
      with Inr Cons show ?thesis by simp
    next
      case (Some sd)
      with Inr Cons.prems(1) obtain s1 where
        f: "env_fill s t r bal i sd = Inr s1"
        and l: "env_band_loop s1 t r bal is = Inr s'"
        by (auto split: sum.splits)
      have "side (position s) = None \<or> side (position s) = Some sd"
      proof (cases "side (position s)")
        case None
        then show ?thesis by simp
      next
        case (Some x)
        from env_band_side_open [OF _ Some] Inr \<open>sel = Some sd\<close> have "sd = x" by simp
        with Some show ?thesis by simp
      qed
      from env_fill_inv [OF f Cons.prems(2) this Cons.prems(3)] have i1: "env_inv s1" .
      from env_fill_Inr [OF f] Cons.prems(2) have "good_to_trade s1" by simp
      from Cons.IH [OF l this i1] show ?thesis .
    qed
  qed
qed

lemma env_inv_step:
  assumes "env_evaluate_orders t r s = Inr s'" and "env_inv s"
  shows "env_inv s'"
proof -
  from assms(1) obtain s1 s2 where
    g: "env_gate s r = Inr s1"
    and x: "(case side (position s1) of Some sd \<Rightarrow> env_exits s1 t r sd | None \<Rightarrow> Inr s1) = Inr s2"
    and e: "env_entries s2 t r = Inr s'"
    by (auto simp: env_evaluate_orders_def split: sum.splits)
  from env_gate_Inr [OF g] assms(2) have i1: "env_inv s1"
    by (auto simp: env_inv_def split: option.splits)
  have i2: "env_inv s2"
  proof (cases "s2 = s1")
    case True
    with i1 show ?thesis by simp
  next
    case False
    with x obtain sd where sd: "env_exits s1 t r sd = Inr s2"
      by (auto split: option.splits)
    from env_exits_Inr [OF sd] False obtain s3 price reason where
      c: "env_close_trade s1 t price reason = Inr s3"
      and f: "s2 = s3\<lparr> good_to_trade := False, n_bands_hit := 0 \<rparr>
              \<or> s2 = s3\<lparr> position_was_closed := True, n_bands_hit := 0 \<rparr>"
      by blast
    from env_close_trade_ledger [OF c] f show ?thesis
      by (auto simp: env_inv_def)
  qed
  show ?thesis
  proof (cases "good_to_trade s2 \<and> \<not> position_was_closed s2")
    case True
    with e env_band_loop_inv [OF _ _ i2] show ?thesis
      by (auto simp: env_entries_def)
  next
    case False
    with e i2 show ?thesis by (auto simp: env_entries_def)
  qed
qed

lemma env_inv_loop:
  assumes "backtest_loop env_evaluate_orders row_close d s = Inr s'" and "env_inv s"
  shows "env_inv s'"
proof (rule backtest_loop_invariant [where Q = env_inv, OF _ _ assms(2) assms(1)])
  fix t r and s s' :: env_state
  assume "env_evaluate_orders t r s = Inr s'" and "env_inv s"
  then show "env_inv s'" by (rule env_inv_step)
next
  fix s :: env_state and prev rec
  assume "env_inv s"
  then show "env_inv (s\<lparr> previous_equity_update_time := prev, equity_record := rec \<rparr>)"
    by (simp add: env_inv_def split: option.splits)
qed

lemma env_gated_then_flat:
  assumes ev: "env_evaluate_orders t r s = Inr s'"
    and fl: "side (position s') = None" "\<not> good_to_trade s'"
      "last_position_side s' = Some sd" "n_bands_hit s' = 0"
    and nr: "\<forall>x \<in> set later. \<not> recrossed sd (snd x)"
  shows "\<exists>s''. backtest_loop env_evaluate_orders row_close ((t, r) # later) s = Inr s''
           \<and> position s'' = position s' \<and> balance s'' = balance s'
           \<and> trades_info s'' = trades_info s' \<and> \<not> good_to_trade s''
           \<and> (\<forall>t2 r2. recrossed sd r2 \<longrightarrow>
                 env_evaluate_orders t2 r2 s'' =
                   lift (env_band_loop
                           (s''\<lparr> position_was_closed := False, good_to_trade := True \<rparr>)
                           t2 r2 (balance s'') [0..<length (envelopes (params s''))]))"
proof -
  from fl(1) update_equity_record_flat [of "position s'" t "balance s'" "row_close r"
      "previous_equity_update_time s'" "equity_update_interval s'" "equity_record s'"]
  obtain prev' rec' where
    eq: "update_equity_record t (position s') (balance s') (row_close r)
           (previous_equity_update_time s') (equity_update_interval s') (equity_record s')
         = Inr (prev', rec')" by auto
  let ?s2 = "s'\<lparr> previous_equity_update_time := prev', equity_record := rec' \<rparr>"
  from fl have "\<not> good_to_trade ?s2" "last_position_side ?s2 = Some sd"
    "side (position ?s2) = None" by simp_all
  from env_gate_closed_loop [OF this nr] obtain s'' where
    l: "backtest_loop env_evaluate_orders row_close later ?s2 = Inr s''"
    and p: "position s'' = position ?s2" "balance s'' = balance ?s2"
      "trades_info s'' = trades_info ?s2" "\<not> good_to_trade s''"
      "last_position_side s'' = Some sd" "n_bands_hit s'' = n_bands_hit ?s2" by blast
  from p fl have q: "side (position s'') = None" "n_bands_hit s'' = 0" by simp_all
  have "\<forall>t2 r2. recrossed sd r2 \<longrightarrow>
          env_evaluate_orders t2 r2 s'' =
            lift (env_band_loop
                    (s''\<lparr> position_was_closed := False, good_to_trade := True \<rparr>)
                    t2 r2 (balance s'') [0..<length (envelopes (params s''))])"
    using env_gate_reopens [OF p(4) p(5) q(1)] q(2) by simp
  with ev eq l p show ?thesis by simp
qed

text \<open>
  C4, as the code has it. On a bar whose open price has breached the configured
  threshold against the entry price of the open position, the position is closed at the
  open price of the bar with close reason \<open>CA long\<close> or \<open>CA short\<close>, and the gate is closed:
  through that bar and every later bar whose close price has not recrossed the average
  to the favourable side of the closed position, the run returns with the position, the
  balance and the ledger as the close left them. On a bar that has recrossed, the gate
  opens and the band loop runs from band 1.
\<close>

theorem adverse_open_closes_and_gates:
  assumes "env_inv s" and "side (position s) = Some sd"
    and "env_price_jump s r sd = Inr True"
    and "env_evaluate_orders t r s = Inr s'"
    and "\<forall>x \<in> set later. \<not> recrossed sd (snd x)"
  shows "(\<exists>e. trades_info s' = trades_info s @ [e]
               \<and> t_close_price e = Some (row_open r)
               \<and> t_close_reason e = Some (''CA '' @ str_side sd))
         \<and> side (position s') = None \<and> \<not> good_to_trade s'
         \<and> (\<exists>s''. backtest_loop env_evaluate_orders row_close ((t, r) # later) s = Inr s''
               \<and> position s'' = position s' \<and> balance s'' = balance s'
               \<and> trades_info s'' = trades_info s' \<and> \<not> good_to_trade s''
               \<and> (\<forall>t2 r2. recrossed sd r2 \<longrightarrow>
                     env_evaluate_orders t2 r2 s'' =
                       lift (env_band_loop
                               (s''\<lparr> position_was_closed := False, good_to_trade := True \<rparr>)
                               t2 r2 (balance s'') [0..<length (envelopes (params s''))])))"
proof -
  from assms(3) have
    "env_price_jump s r sd = Inr True \<and> Some (row_open r) = Some (row_open r) \<and> ''CA '' = ''CA ''
     \<or> env_price_jump s r sd = Inr False \<and> check_for_sl (position s) r = Inr True
       \<and> Some (row_open r) = sl_price (position s) \<and> ''CA '' = ''SL ''"
    by simp
  note b = env_gated_exit_bar [OF assms(1,2) this assms(4)]
  then have fl: "side (position s') = None" "\<not> good_to_trade s'"
    "last_position_side s' = Some sd" "n_bands_hit s' = 0" by simp_all
  from b env_gated_then_flat [OF assms(4) fl assms(5)] show ?thesis by blast
qed

theorem adverse_open_closes_and_gates_witness:
  "env_inv (ex_env_after 1 1)
   \<and> side (position (ex_env_after 1 1)) = Some Long
   \<and> env_price_jump (ex_env_after 1 1) (ex_env_bar 2) Long = Inr True
   \<and> \<not> isl (env_evaluate_orders 43200 (ex_env_bar 2) (ex_env_after 1 1))
   \<and> \<not> recrossed Long (ex_env_bar 4)
   \<and> map t_close_price
        (trades_info (projr (env_evaluate_orders 43200 (ex_env_bar 2) (ex_env_after 1 1))))
        = [Some 60]
   \<and> map t_close_reason
        (trades_info (projr (env_evaluate_orders 43200 (ex_env_bar 2) (ex_env_after 1 1))))
        = [Some ''CA long'']
   \<and> \<not> good_to_trade (projr (env_evaluate_orders 43200 (ex_env_bar 2) (ex_env_after 1 1)))
   \<and> \<not> isl (backtest_loop env_evaluate_orders row_close
               [(43200, ex_env_bar 2), (86400, ex_env_bar 4)] (ex_env_after 1 1))
   \<and> position (projr (backtest_loop env_evaluate_orders row_close
               [(43200, ex_env_bar 2), (86400, ex_env_bar 4)] (ex_env_after 1 1)))
       = position (projr (env_evaluate_orders 43200 (ex_env_bar 2) (ex_env_after 1 1)))"
proof -
  let ?S = "ex_env_after 1 1" and ?R = "ex_env_bar 2"
  let ?later = "[(86400 :: int, ex_env_bar 4)]"
  let ?S' = "projr (env_evaluate_orders 43200 ?R ?S)"
  have a: "env_inv ?S" by code_simp
  have b: "side (position ?S) = Some Long" by code_simp
  have c: "env_price_jump ?S ?R Long = Inr True" by code_simp
  have d: "\<not> isl (env_evaluate_orders 43200 ?R ?S)" by code_simp
  have e0: "\<not> recrossed Long (ex_env_bar 4)" by code_simp
  then have e: "\<forall>x \<in> set ?later. \<not> recrossed Long (snd x)" by simp
  have f: "trades_info ?S = []" by code_simp
  have g: "row_open ?R = 60" by code_simp
  from d have d': "env_evaluate_orders 43200 ?R ?S = Inr ?S'" by simp
  note th = adverse_open_closes_and_gates [OF a b c d' e]
  from th f g have h: "map t_close_price (trades_info ?S') = [Some 60]"
    "map t_close_reason (trades_info ?S') = [Some ''CA long'']"
    by (auto simp: str_side_def)
  from th have i: "\<not> good_to_trade ?S'" by blast
  from th obtain s'' where
    j: "backtest_loop env_evaluate_orders row_close ((43200, ?R) # ?later) ?S = Inr s''"
    and k: "position s'' = position ?S'" by blast
  from j k have l: "\<not> isl (backtest_loop env_evaluate_orders row_close
               [(43200, ?R), (86400, ex_env_bar 4)] ?S)"
    "position (projr (backtest_loop env_evaluate_orders row_close
               [(43200, ?R), (86400, ex_env_bar 4)] ?S)) = position ?S'"
    by simp_all
  from a b c d e0 h i l show ?thesis by blast
qed

text \<open>
  C4 as stated names the close reason \<open>jump\<close>. The ledger entry of the example holds
  \<open>CA long\<close>.
\<close>

theorem adverse_open_reason_counterexample:
  "side (position (ex_env_after 1 1)) = Some Long
   \<and> env_price_jump (ex_env_after 1 1) (ex_env_bar 2) Long = Inr True
   \<and> \<not> isl (env_evaluate_orders 43200 (ex_env_bar 2) (ex_env_after 1 1))
   \<and> t_close_reason
        (last (trades_info (projr (env_evaluate_orders 43200 (ex_env_bar 2) (ex_env_after 1 1)))))
       = Some ''CA long''
   \<and> t_close_reason
        (last (trades_info (projr (env_evaluate_orders 43200 (ex_env_bar 2) (ex_env_after 1 1)))))
       \<noteq> Some ''jump''"
  by code_simp

text \<open>
  C10. A stop-loss close of the envelope strategy (reason \<open>SL long\<close> or \<open>SL short\<close>, at the
  stop-loss price) closes the gate as the adverse-open close does: through that bar and
  every later bar whose close price is not above the average (for a long) or below it
  (for a short), the run returns with the position, the balance and the ledger as the
  close left them; on a bar that has recrossed, the band loop runs again.
\<close>

theorem stop_loss_closes_gate:
  assumes "env_inv s" and "side (position s) = Some sd"
    and "env_price_jump s r sd = Inr False"
    and "check_for_sl (position s) r = Inr True"
    and "env_evaluate_orders t r s = Inr s'"
    and "\<forall>x \<in> set later. \<not> recrossed sd (snd x)"
  shows "(\<exists>e. trades_info s' = trades_info s @ [e]
               \<and> t_close_price e = sl_price (position s)
               \<and> t_close_reason e = Some (''SL '' @ str_side sd))
         \<and> side (position s') = None \<and> \<not> good_to_trade s'
         \<and> (\<exists>s''. backtest_loop env_evaluate_orders row_close ((t, r) # later) s = Inr s''
               \<and> position s'' = position s' \<and> balance s'' = balance s'
               \<and> trades_info s'' = trades_info s' \<and> \<not> good_to_trade s''
               \<and> (\<forall>t2 r2. recrossed sd r2 \<longrightarrow>
                     env_evaluate_orders t2 r2 s'' =
                       lift (env_band_loop
                               (s''\<lparr> position_was_closed := False, good_to_trade := True \<rparr>)
                               t2 r2 (balance s'') [0..<length (envelopes (params s''))])))"
proof -
  from assms(3,4) have
    "env_price_jump s r sd = Inr True \<and> sl_price (position s) = Some (row_open r) \<and> ''SL '' = ''CA ''
     \<or> env_price_jump s r sd = Inr False \<and> check_for_sl (position s) r = Inr True
       \<and> sl_price (position s) = sl_price (position s) \<and> ''SL '' = ''SL ''"
    by simp
  note b = env_gated_exit_bar [OF assms(1,2) this assms(5)]
  then have fl: "side (position s') = None" "\<not> good_to_trade s'"
    "last_position_side s' = Some sd" "n_bands_hit s' = 0" by simp_all
  from b env_gated_then_flat [OF assms(5) fl assms(6)] show ?thesis by blast
qed

theorem stop_loss_closes_gate_witness:
  "env_inv (ex_env_after 1 1)
   \<and> side (position (ex_env_after 1 1)) = Some Long
   \<and> env_price_jump (ex_env_after 1 1) (ex_env_bar 3) Long = Inr False
   \<and> check_for_sl (position (ex_env_after 1 1)) (ex_env_bar 3) = Inr True
   \<and> \<not> isl (env_evaluate_orders 64800 (ex_env_bar 3) (ex_env_after 1 1))
   \<and> \<not> recrossed Long (ex_env_bar 4)
   \<and> map t_close_price
        (trades_info (projr (env_evaluate_orders 64800 (ex_env_bar 3) (ex_env_after 1 1))))
        = [Some (171 / 2)]
   \<and> map t_close_reason
        (trades_info (projr (env_evaluate_orders 64800 (ex_env_bar 3) (ex_env_after 1 1))))
        = [Some ''SL long'']
   \<and> \<not> good_to_trade (projr (env_evaluate_orders 64800 (ex_env_bar 3) (ex_env_after 1 1)))
   \<and> open_long_k (ex_env_bar 4) 1 = Some True
   \<and> \<not> isl (backtest_loop env_evaluate_orders row_close
               [(64800, ex_env_bar 3), (86400, ex_env_bar 4)] (ex_env_after 1 1))
   \<and> position (projr (backtest_loop env_evaluate_orders row_close
               [(64800, ex_env_bar 3), (86400, ex_env_bar 4)] (ex_env_after 1 1)))
       = position (projr (env_evaluate_orders 64800 (ex_env_bar 3) (ex_env_after 1 1)))"
proof -
  let ?S = "ex_env_after 1 1" and ?R = "ex_env_bar 3"
  let ?later = "[(86400 :: int, ex_env_bar 4)]"
  let ?S' = "projr (env_evaluate_orders 64800 ?R ?S)"
  have a: "env_inv ?S" by code_simp
  have b: "side (position ?S) = Some Long" by code_simp
  have c: "env_price_jump ?S ?R Long = Inr False" by code_simp
  have c': "check_for_sl (position ?S) ?R = Inr True" by code_simp
  have d: "\<not> isl (env_evaluate_orders 64800 ?R ?S)" by code_simp
  have e0: "\<not> recrossed Long (ex_env_bar 4)" by code_simp
  then have e: "\<forall>x \<in> set ?later. \<not> recrossed Long (snd x)" by simp
  have f: "trades_info ?S = []" by code_simp
  have g: "sl_price (position ?S) = Some (171 / 2)" by code_simp
  have m: "open_long_k (ex_env_bar 4) 1 = Some True" by code_simp
  from d have d': "env_evaluate_orders 64800 ?R ?S = Inr ?S'" by simp
  note th = stop_loss_closes_gate [OF a b c c' d' e]
  from th f g have h: "map t_close_price (trades_info ?S') = [Some (171 / 2)]"
    "map t_close_reason (trades_info ?S') = [Some ''SL long'']"
    by (auto simp: str_side_def)
  from th have i: "\<not> good_to_trade ?S'" by blast
  from th obtain s'' where
    j: "backtest_loop env_evaluate_orders row_close ((64800, ?R) # ?later) ?S = Inr s''"
    and k: "position s'' = position ?S'" by blast
  from j k have l: "\<not> isl (backtest_loop env_evaluate_orders row_close
               [(64800, ?R), (86400, ex_env_bar 4)] ?S)"
    "position (projr (backtest_loop env_evaluate_orders row_close
               [(64800, ?R), (86400, ex_env_bar 4)] ?S)) = position ?S'"
    by simp_all
  from a b c c' d e0 h i m l show ?thesis by blast
qed

subsection \<open>Entries and closes on one bar\<close>

lemma sma_open_bar:
  assumes "side (position s) = Some sd" and "sma_evaluate_orders t r s = Inr s'"
  shows "s' = s \<or> (side (position s') = None
                    \<and> length (trades_info s') = length (trades_info s) + 1)"
proof -
  from assms have "sma_exits s t r sd = Inr s'" by (simp add: sma_evaluate_orders_def)
  from sma_exits_Inr [OF this] show ?thesis
    by (auto dest!: sma_close_trade_ledger)
qed

lemma env_flat_bar:
  assumes "side (position u) = None" and "env_gate u r = Inr u1" and "good_to_trade u1"
  shows "env_evaluate_orders t r u =
           lift (env_band_loop u1 t r (balance u) [n_bands_hit u..<length (envelopes (params u))])"
proof -
  from env_gate_Inr [OF assms(2)] assms(1) have
    "side (position u1) = None" "\<not> position_was_closed u1" "balance u1 = balance u"
    "n_bands_hit u1 = n_bands_hit u" "params u1 = params u" by auto
  with assms(2,3) show ?thesis
    by (simp add: env_evaluate_orders_def env_entries_def)
qed

lemma env_closing_bar:
  assumes "env_evaluate_orders t r u = Inr u'" and "trades_info u' \<noteq> trades_info u"
  shows "side (position u') = None \<and> n_bands_hit u' = 0
         \<and> (\<exists>e. trades_info u' = trades_info u @ [e] \<and> balance u' = close_balance e)"
  using env_step_ledger [OF assms(1)] assms(2) by auto

text \<open>
  C5, as the code has it. A bar that starts flat evaluates the entries: in the
  single-entry strategy always, in the envelope strategy if the gate is open after the
  bar's gate update. A bar on which a position is closed evaluates no entry: the
  single-entry strategy leaves the position flat, and the envelope strategy ends the bar
  flat with the watermark at zero and the balance of the close.
\<close>

theorem entries_on_bars_without_close:
  "(side (position s) = None \<longrightarrow>
      sma_evaluate_orders t r s = lift (sma_entries s t r))
   \<and> (side (position s) = Some sd \<and> sma_evaluate_orders t r s = Inr s' \<longrightarrow>
        s' = s \<or> (side (position s') = None
                   \<and> length (trades_info s') = length (trades_info s) + 1))
   \<and> (side (position u) = None \<and> env_gate u r' = Inr u1 \<and> good_to_trade u1 \<longrightarrow>
        env_evaluate_orders t' r' u =
          lift (env_band_loop u1 t' r' (balance u)
                  [n_bands_hit u..<length (envelopes (params u))]))
   \<and> (env_evaluate_orders t' r' u = Inr u' \<and> trades_info u' \<noteq> trades_info u \<longrightarrow>
        side (position u') = None \<and> n_bands_hit u' = 0
        \<and> (\<exists>e. trades_info u' = trades_info u @ [e] \<and> balance u' = close_balance e))"
proof (intro conjI impI)
  assume "side (position s) = None"
  then show "sma_evaluate_orders t r s = lift (sma_entries s t r)"
    by (simp add: sma_evaluate_orders_def)
next
  assume "side (position s) = Some sd \<and> sma_evaluate_orders t r s = Inr s'"
  then show "s' = s \<or> (side (position s') = None
                   \<and> length (trades_info s') = length (trades_info s) + 1)"
    using sma_open_bar [of s sd t r s'] by blast
next
  assume "side (position u) = None \<and> env_gate u r' = Inr u1 \<and> good_to_trade u1"
  then show "env_evaluate_orders t' r' u =
          lift (env_band_loop u1 t' r' (balance u)
                  [n_bands_hit u..<length (envelopes (params u))])"
    using env_flat_bar [of u r' u1 t'] by blast
next
  assume a: "env_evaluate_orders t' r' u = Inr u' \<and> trades_info u' \<noteq> trades_info u"
  from env_closing_bar [of t' r' u u'] a
  show "side (position u') = None" "n_bands_hit u' = 0"
    "\<exists>e. trades_info u' = trades_info u @ [e] \<and> balance u' = close_balance e"
    by blast+
qed

theorem entries_on_bars_without_close_witness:
  "side (position (ex_sma_after 1 1)) = None
   \<and> sma_evaluate_orders 86400 (ex_sma_bar 1) (ex_sma_after 1 1)
       = lift (sma_entries (ex_sma_after 1 1) 86400 (ex_sma_bar 1))
   \<and> side (position (projr (sma_evaluate_orders 86400 (ex_sma_bar 1) (ex_sma_after 1 1))))
       = Some Long
   \<and> side (position (ex_sma_after 1 2)) = Some Long
   \<and> \<not> isl (sma_evaluate_orders 172800 (ex_sma_bar 2) (ex_sma_after 1 2))
   \<and> side (position (projr (sma_evaluate_orders 172800 (ex_sma_bar 2) (ex_sma_after 1 2))))
       = None
   \<and> side (position (ex_env_after 1 0)) = None
   \<and> \<not> isl (env_gate (ex_env_after 1 0) (ex_env_bar 0))
   \<and> good_to_trade (projr (env_gate (ex_env_after 1 0) (ex_env_bar 0)))
   \<and> env_evaluate_orders 0 (ex_env_bar 0) (ex_env_after 1 0)
       = lift (env_band_loop (projr (env_gate (ex_env_after 1 0) (ex_env_bar 0))) 0
                 (ex_env_bar 0) (balance (ex_env_after 1 0))
                 [n_bands_hit (ex_env_after 1 0)
                    ..<length (envelopes (params (ex_env_after 1 0)))])
   \<and> \<not> isl (env_evaluate_orders 21600 (ex_env_bar 1) (ex_env_after 1 1))
   \<and> trades_info (projr (env_evaluate_orders 21600 (ex_env_bar 1) (ex_env_after 1 1)))
       \<noteq> trades_info (ex_env_after 1 1)
   \<and> side (position (projr (env_evaluate_orders 21600 (ex_env_bar 1) (ex_env_after 1 1))))
       = None
   \<and> n_bands_hit (projr (env_evaluate_orders 21600 (ex_env_bar 1) (ex_env_after 1 1))) = 0"
proof -
  let ?S1 = "ex_sma_after 1 1" and ?S2 = "ex_sma_after 1 2"
  let ?U0 = "ex_env_after 1 0" and ?U1 = "ex_env_after 1 1"
  let ?G = "projr (env_gate ?U0 (ex_env_bar 0))"
  let ?S2' = "projr (sma_evaluate_orders 172800 (ex_sma_bar 2) ?S2)"
  let ?U1' = "projr (env_evaluate_orders 21600 (ex_env_bar 1) ?U1)"
  have a: "side (position ?S1) = None" by code_simp
  have b: "side (position (projr (sma_evaluate_orders 86400 (ex_sma_bar 1) ?S1))) = Some Long"
    by code_simp
  have c: "side (position ?S2) = Some Long" by code_simp
  have d: "\<not> isl (sma_evaluate_orders 172800 (ex_sma_bar 2) ?S2)" by code_simp
  have e: "length (trades_info ?S2') \<noteq> length (trades_info ?S2)" by code_simp
  have f: "side (position ?U0) = None" by code_simp
  have g: "\<not> isl (env_gate ?U0 (ex_env_bar 0))" by code_simp
  have h: "good_to_trade ?G" by code_simp
  have i: "\<not> isl (env_evaluate_orders 21600 (ex_env_bar 1) ?U1)" by code_simp
  have j: "length (trades_info ?U1') \<noteq> length (trades_info ?U1)" by code_simp
  from d have d': "sma_evaluate_orders 172800 (ex_sma_bar 2) ?S2 = Inr ?S2'" by simp
  from g have g': "env_gate ?U0 (ex_env_bar 0) = Inr ?G" by simp
  from i have i': "env_evaluate_orders 21600 (ex_env_bar 1) ?U1 = Inr ?U1'" by simp
  from j have j': "trades_info ?U1' \<noteq> trades_info ?U1" by auto
  note th1 = entries_on_bars_without_close
    [of ?S1 86400 "ex_sma_bar 1" Long ?S1 ?U0 "ex_env_bar 0" ?G 0 ?U0]
  note th2 = entries_on_bars_without_close
    [of ?S2 172800 "ex_sma_bar 2" Long ?S2' ?U1 "ex_env_bar 1" ?G 21600 ?U1']
  from th1 a have k: "sma_evaluate_orders 86400 (ex_sma_bar 1) ?S1
       = lift (sma_entries ?S1 86400 (ex_sma_bar 1))" by blast
  from th1 f g' h have l: "env_evaluate_orders 0 (ex_env_bar 0) ?U0
       = lift (env_band_loop ?G 0 (ex_env_bar 0) (balance ?U0)
                 [n_bands_hit ?U0..<length (envelopes (params ?U0))])" by blast
  from th2 c d' e have m: "side (position ?S2') = None" by auto
  from th2 i' j' have n: "side (position ?U1') = None" "n_bands_hit ?U1' = 0" by blast+
  from a k b c d m f g h l i j' n show ?thesis by blast
qed

text \<open>
  C5 as stated lets a position closed by a signal exit be entered again within the bar.
  In the example the long is closed with reason \<open>Exit long\<close> on a bar whose first band
  signal is set and while the gate is open; the bar ends flat, although the band loop,
  had it run on the object of the bar's end, would have opened a long.
\<close>

theorem no_entry_after_exit_counterexample:
  "side (position (ex_env_after 1 1)) = Some Long
   \<and> \<not> isl (env_evaluate_orders 21600 (ex_env_bar 1) (ex_env_after 1 1))
   \<and> map t_close_reason
        (trades_info (projr (env_evaluate_orders 21600 (ex_env_bar 1) (ex_env_after 1 1))))
       = [Some ''Exit long'']
   \<and> good_to_trade (projr (env_evaluate_orders 21600 (ex_env_bar 1) (ex_env_after 1 1)))
   \<and> open_long_k (ex_env_bar 1) 1 = Some True
   \<and> side (position (projr (env_evaluate_orders 21600 (ex_env_bar 1) (ex_env_after 1 1)))) = None
   \<and> balance (projr (env_evaluate_orders 21600 (ex_env_bar 1) (ex_env_after 1 1)))
       = close_balance (last (trades_info
           (projr (env_evaluate_orders 21600 (ex_env_bar 1) (ex_env_after 1 1)))))
   \<and> side (position (projr (env_entries
        ((projr (env_evaluate_orders 21600 (ex_env_bar 1) (ex_env_after 1 1)))
           \<lparr> position_was_closed := False \<rparr>) 21600 (ex_env_bar 1)))) = Some Long"
  by code_simp

subsection \<open>Sizing modes\<close>












subsection \<open>Trade mode long\<close>

text \<open>In simple\_sma.py the flag guards the short entry: a run in mode \<open>long\<close> opens no short.\<close>

lemma sma_long_mode_step:
  assumes "ignore_shorts s" and "sma_evaluate_orders t r s = Inr s'"
    and "side (position s) \<noteq> Some Short"
  shows "side (position s') \<noteq> Some Short \<and> ignore_shorts s'"
proof (cases "side (position s)")
  case None
  with assms show ?thesis
    by (auto simp: sma_evaluate_orders_def sma_entries_def sma_open_side_def Let_def
                   position_open_def col_def
             split: sum.splits if_splits option.splits prod.splits)
next
  case (Some sd)
  with assms have "sma_exits s t r sd = Inr s'" by (simp add: sma_evaluate_orders_def)
  from sma_exits_Inr [OF this] show ?thesis
  proof
    assume "s' = s"
    with assms show ?thesis by simp
  next
    assume "\<exists>price reason. sma_close_trade s t price reason = Inr s'"
    then obtain price reason where c: "sma_close_trade s t price reason = Inr s'" by blast
    from sma_close_trade_Inr [OF c] assms(1) have "ignore_shorts s'" by auto
    with sma_close_trade_ledger [OF c] show ?thesis by auto
  qed
qed

lemma sma_long_mode_run:
  assumes "backtest_loop sma_evaluate_orders row_close d s = Inr s'"
    and "ignore_shorts s" and "side (position s) \<noteq> Some Short"
  shows "side (position s') \<noteq> Some Short"
proof -
  let ?Q = "\<lambda>s :: sma_state. side (position s) \<noteq> Some Short \<and> ignore_shorts s"
  have "?Q s'"
    by (rule backtest_loop_invariant [where Q = ?Q, OF _ _ _ assms(1)])
       (use assms(2,3) sma_long_mode_step in auto)
  then show ?thesis by simp
qed

text \<open>
  C8 at an input where envelope.py breaks it. The mode is \<open>long\<close>, so \<open>ignore_shorts\<close> is
  set and the short signals are not populated; \<open>evaluate_orders\<close> never reads the flag.
  On a frame that already holds the column \<open>open_short_1\<close> with a true value, the run
  opens a short. On a frame without it, the first flat bar whose first long band is not
  reached raises \<open>KeyError\<close> for that column.
\<close>

theorem envelope_long_mode_opens_short:
  "\<not> isl (env_Strategy (ex_env_params\<lparr> mode := Some ''long'' \<rparr>)
             [(0, (ex_env_row 100 106 99 100)\<lparr> open_short_k := [1 \<mapsto> True, 2 \<mapsto> False] \<rparr>)])
   \<and> ignore_shorts (projr (env_Strategy (ex_env_params\<lparr> mode := Some ''long'' \<rparr>)
             [(0, (ex_env_row 100 106 99 100)\<lparr> open_short_k := [1 \<mapsto> True, 2 \<mapsto> False] \<rparr>)]))
   \<and> \<not> isl (env_run_backtest
        (projr (env_Strategy (ex_env_params\<lparr> mode := Some ''long'' \<rparr>)
             [(0, (ex_env_row 100 106 99 100)\<lparr> open_short_k := [1 \<mapsto> True, 2 \<mapsto> False] \<rparr>)]))
        1000 1 0 0)
   \<and> side (position (projr (env_run_backtest
        (projr (env_Strategy (ex_env_params\<lparr> mode := Some ''long'' \<rparr>)
             [(0, (ex_env_row 100 106 99 100)\<lparr> open_short_k := [1 \<mapsto> True, 2 \<mapsto> False] \<rparr>)]))
        1000 1 0 0))) = Some Short
   \<and> \<not> isl (env_Strategy (ex_env_params\<lparr> mode := Some ''long'' \<rparr>)
             [(0, ex_env_row 100 106 99 100)])
   \<and> raised_exn (env_run_backtest
        (projr (env_Strategy (ex_env_params\<lparr> mode := Some ''long'' \<rparr>)
             [(0, ex_env_row 100 106 99 100)]))
        1000 1 0 0) = Some (KeyError ''open_short_1'')"
  by code_simp

subsection \<open>The band watermark\<close>

text \<open>
  \<open>n_bands_hit\<close> counts the bands filled for the open position. The loop over the bands
  starts at that count, each fill raises it by one, and each of the four closes sets it
  back to zero.
\<close>

lemma env_band_side_above:
  assumes "open_long_k r' (i + 1) = open_long_k r (i + 1)"
    and "open_short_k r' (i + 1) = open_short_k r (i + 1)"
  shows "env_band_side pos r' i = env_band_side pos r i"
  by (simp only: env_band_side_def assms)

lemma env_fill_above:
  assumes "band_low_k r' (i + 1) = band_low_k r (i + 1)"
    and "band_high_k r' (i + 1) = band_high_k r (i + 1)"
  shows "env_fill s t r' bal i sd = env_fill s t r bal i sd"
  by (simp only: env_fill_def assms)

lemma env_band_loop_above:
  assumes "\<forall>i \<in> set is. open_long_k r' (i + 1) = open_long_k r (i + 1)
             \<and> open_short_k r' (i + 1) = open_short_k r (i + 1)
             \<and> band_low_k r' (i + 1) = band_low_k r (i + 1)
             \<and> band_high_k r' (i + 1) = band_high_k r (i + 1)"
  shows "env_band_loop s t r' bal is = env_band_loop s t r bal is"
  using assms
proof (induction "is" arbitrary: s)
  case Nil
  then show ?case by simp
next
  case (Cons i "is")
  from Cons.prems have
    a: "env_band_side (position s) r' i = env_band_side (position s) r i"
    by (intro env_band_side_above) simp_all
  from Cons.prems have b: "\<And>sd. env_fill s t r' bal i sd = env_fill s t r bal i sd"
    by (intro env_fill_above) simp_all
  from Cons have c: "\<And>s1. env_band_loop s1 t r' bal is = env_band_loop s1 t r bal is"
    by simp
  show ?case by (simp only: env_band_loop.simps a b c)
qed

lemma env_band_loop_count:
  assumes "env_band_loop s t r bal is = Inr s'"
  shows "n_bands_hit s \<le> n_bands_hit s' \<and> n_bands_hit s' \<le> n_bands_hit s + length is
         \<and> (\<forall>im. env_initial_margin (params s) bal = Inr im \<longrightarrow>
               balance s' = balance s - of_nat (n_bands_hit s' - n_bands_hit s) * im)"
  using assms
proof (induction "is" arbitrary: s)
  case Nil
  then show ?case by simp
next
  case (Cons i "is")
  show ?case
  proof (cases "env_band_side (position s) r i")
    case (Inl e)
    with Cons.prems show ?thesis by simp
  next
    case (Inr sel)
    show ?thesis
    proof (cases sel)
      case None
      with Inr Cons.prems have "env_band_loop s t r bal is = Inr s'" by simp
      from Cons.IH [OF this] show ?thesis by simp
    next
      case (Some sd)
      with Inr Cons.prems obtain s1 where
        f: "env_fill s t r bal i sd = Inr s1"
        and l: "env_band_loop s1 t r bal is = Inr s'"
        by (auto split: sum.splits)
      from env_fill_Inr [OF f] obtain im where
        n: "n_bands_hit s1 = n_bands_hit s + 1" and p: "params s1 = params s"
        and m: "env_initial_margin (params s) bal = Inr im" "balance s1 = balance s - im"
        by blast
      from Cons.IH [OF l] have
        a0: "n_bands_hit s1 \<le> n_bands_hit s'"
        and b0: "n_bands_hit s' \<le> n_bands_hit s1 + length is"
        and c0: "env_initial_margin (params s1) bal = Inr im \<longrightarrow>
                 balance s' = balance s1 - of_nat (n_bands_hit s' - n_bands_hit s1) * im"
        by blast+
      from a0 n obtain k where k: "n_bands_hit s' = n_bands_hit s + 1 + k"
        by (metis le_Suc_ex)
      from c0 p m k n have c: "balance s' = balance s - im - of_nat k * im" by simp
      from k have d: "n_bands_hit s' - n_bands_hit s = k + 1" by simp
      have e: "balance s' = balance s - of_nat (n_bands_hit s' - n_bands_hit s) * im"
        unfolding d c by (simp add: algebra_simps)
      from k b0 n m e show ?thesis by simp
    qed
  qed
qed

lemma env_step_watermark:
  assumes "env_evaluate_orders t r s = Inr s'"
  shows "(trades_info s' \<noteq> trades_info s \<longrightarrow>
            n_bands_hit s' = 0 \<and> side (position s') = None)
         \<and> (trades_info s' = trades_info s \<longrightarrow> n_bands_hit s \<le> n_bands_hit s')"
proof -
  from assms obtain s1 s2 where
    g: "env_gate s r = Inr s1"
    and x: "(case side (position s1) of Some sd \<Rightarrow> env_exits s1 t r sd | None \<Rightarrow> Inr s1) = Inr s2"
    and e: "env_entries s2 t r = Inr s'"
    by (auto simp: env_evaluate_orders_def split: sum.splits)
  from env_gate_Inr [OF g] have g1: "trades_info s1 = trades_info s"
    "n_bands_hit s1 = n_bands_hit s" by auto
  have "trades_info s' = trades_info s \<longrightarrow> n_bands_hit s \<le> n_bands_hit s'"
  proof
    assume same: "trades_info s' = trades_info s"
    have eq: "s2 = s1"
    proof (rule ccontr)
      assume ne: "s2 \<noteq> s1"
      with x obtain sd where sd: "env_exits s1 t r sd = Inr s2"
        by (auto split: option.splits)
      from env_exits_Inr [OF sd] ne obtain s3 price reason where
        c: "env_close_trade s1 t price reason = Inr s3"
        and f: "s2 = s3\<lparr> good_to_trade := False, n_bands_hit := 0 \<rparr>
                \<or> s2 = s3\<lparr> position_was_closed := True, n_bands_hit := 0 \<rparr>"
        by blast
      from env_close_trade_ledger [OF c] f have "trades_info s2 \<noteq> trades_info s1" by auto
      with env_entries_trades [OF e] g1 same show False by simp
    qed
    show "n_bands_hit s \<le> n_bands_hit s'"
    proof (cases "good_to_trade s2 \<and> \<not> position_was_closed s2")
      case True
      with e have "env_band_loop s2 t r (balance s2)
                     [n_bands_hit s2..<length (envelopes (params s2))] = Inr s'"
        by (simp add: env_entries_def)
      from env_band_loop_count [OF this] eq g1 show ?thesis by simp
    next
      case False
      with e eq g1 show ?thesis by (auto simp: env_entries_def)
    qed
  qed
  with env_step_ledger [OF assms] show ?thesis by auto
qed

lemma check_for_sl_row:
  assumes "row_low r' = row_low r" and "row_high r' = row_high r"
  shows "check_for_sl p r' = check_for_sl p r"
proof (cases "behavior p")
  case None
  then show ?thesis by (simp add: check_for_sl_def)
next
  case (Some b)
  with assms show ?thesis
    by (cases b) (simp_all add: check_for_sl_def split: option.splits)
qed

lemma check_for_liquidation_row:
  assumes "row_low r' = row_low r" and "row_high r' = row_high r"
  shows "check_for_liquidation p r' = check_for_liquidation p r"
proof (cases "behavior p")
  case None
  then show ?thesis by (simp add: check_for_liquidation_def)
next
  case (Some b)
  with assms show ?thesis
    by (cases b) (simp_all add: check_for_liquidation_def split: option.splits)
qed

lemma env_exits_row:
  assumes "row_open r' = row_open r" and "row_low r' = row_low r"
    and "row_high r' = row_high r" and "average r' = average r"
    and "close_long r' = close_long r" and "close_short r' = close_short r"
  shows "env_exits s t r' sd = env_exits s t r sd"
proof -
  have j: "env_price_jump s r' sd = env_price_jump s r sd"
    by (simp only: env_price_jump_def assms)
  have a: "check_for_sl (position s) r' = check_for_sl (position s) r"
    using assms by (intro check_for_sl_row) simp_all
  have b: "check_for_liquidation (position s) r' = check_for_liquidation (position s) r"
    using assms by (intro check_for_liquidation_row) simp_all
  show ?thesis by (simp only: env_exits_def j a b assms)
qed

lemma env_entries_above:
  assumes ag: "\<forall>k > w. open_long_k r' k = open_long_k r k \<and> open_short_k r' k = open_short_k r k
             \<and> band_low_k r' k = band_low_k r k \<and> band_high_k r' k = band_high_k r k"
    and w: "w \<le> n_bands_hit s2 \<or> \<not> (good_to_trade s2 \<and> \<not> position_was_closed s2)"
  shows "env_entries s2 t r' = env_entries s2 t r"
proof (cases "good_to_trade s2 \<and> \<not> position_was_closed s2")
  case False
  then have "\<not> (good_to_trade s2 \<and> \<not> position_was_closed s2)" .
  then show ?thesis by (simp only: env_entries_def if_False)
next
  case True
  with w have "w \<le> n_bands_hit s2" by simp
  with ag have "\<forall>i \<in> set [n_bands_hit s2..<length (envelopes (params s2))].
      open_long_k r' (i + 1) = open_long_k r (i + 1)
      \<and> open_short_k r' (i + 1) = open_short_k r (i + 1)
      \<and> band_low_k r' (i + 1) = band_low_k r (i + 1)
      \<and> band_high_k r' (i + 1) = band_high_k r (i + 1)"
    by simp
  from env_band_loop_above [OF this] show ?thesis by (simp only: env_entries_def)
qed

lemma env_step_above:
  assumes "\<forall>k > n_bands_hit s. ol k = open_long_k r k \<and> os k = open_short_k r k
             \<and> bl k = band_low_k r k \<and> bh k = band_high_k r k"
  shows "env_evaluate_orders t
           (r\<lparr> open_long_k := ol, open_short_k := os, band_low_k := bl, band_high_k := bh \<rparr>) s
         = env_evaluate_orders t r s"
proof -
  let ?r = "r\<lparr> open_long_k := ol, open_short_k := os, band_low_k := bl, band_high_k := bh \<rparr>"
  have g: "env_gate s ?r = env_gate s r"
    by (simp add: env_gate_def Let_def split: option.splits side.splits)
  have x: "\<And>s1 sd. env_exits s1 t ?r sd = env_exits s1 t r sd"
    by (rule env_exits_row) simp_all
  from assms have ag: "\<forall>k > n_bands_hit s.
      open_long_k ?r k = open_long_k r k \<and> open_short_k ?r k = open_short_k r k
      \<and> band_low_k ?r k = band_low_k r k \<and> band_high_k ?r k = band_high_k r k"
    by simp
  show ?thesis
  proof (cases "env_gate s r")
    case (Inl e)
    then show ?thesis by (simp add: env_evaluate_orders_def g)
  next
    case (Inr s1)
    from env_gate_Inr [OF Inr] have n1: "n_bands_hit s1 = n_bands_hit s" by auto
    let ?X = "case side (position s1) of Some sd \<Rightarrow> env_exits s1 t r sd | None \<Rightarrow> Inr s1"
    have X: "(case side (position s1) of Some sd \<Rightarrow> env_exits s1 t ?r sd | None \<Rightarrow> Inr s1) = ?X"
      by (simp only: x)
    show ?thesis
    proof (cases ?X)
      case (Inl a)
      with Inr show ?thesis
        by (simp only: env_evaluate_orders_def g X sum.case)
    next
      case s2: (Inr s2)
      have "n_bands_hit s \<le> n_bands_hit s2 \<or> \<not> (good_to_trade s2 \<and> \<not> position_was_closed s2)"
      proof (cases "s2 = s1")
        case True
        with n1 show ?thesis by simp
      next
        case False
        with s2 obtain sd where sd: "env_exits s1 t r sd = Inr s2"
          by (auto split: option.splits)
        from env_exits_Inr [OF sd] False show ?thesis by auto
      qed
      from env_entries_above [OF ag this] have "env_entries s2 t ?r = env_entries s2 t r" .
      with Inr s2 show ?thesis
        by (simp only: env_evaluate_orders_def g X sum.case)
    qed
  qed
qed

text \<open>
  C9. On every bar of the envelope engine the bands below the watermark are neither
  checked nor filled: the step is the same whatever the signal and price columns of
  the bands \<open>1 .. n_bands_hit\<close> hold. A fill raises the watermark by one, so a run of the
  band loop raises it by the number of bands it filled and debits one margin for each.
  A bar that closes the position leaves the watermark at zero with no position open;
  a bar that closes nothing never lowers it.
\<close>

theorem watermark_discipline:
  "((\<forall>k > n_bands_hit s. ol k = open_long_k r k \<and> os k = open_short_k r k
        \<and> bl k = band_low_k r k \<and> bh k = band_high_k r k) \<longrightarrow>
      env_evaluate_orders t
        (r\<lparr> open_long_k := ol, open_short_k := os, band_low_k := bl, band_high_k := bh \<rparr>) s
      = env_evaluate_orders t r s)
   \<and> (env_fill s t r bal i sd = Inr s1 \<longrightarrow> n_bands_hit s1 = n_bands_hit s + 1)
   \<and> (env_band_loop s t r bal is = Inr s2 \<longrightarrow>
        n_bands_hit s \<le> n_bands_hit s2 \<and> n_bands_hit s2 \<le> n_bands_hit s + length is
        \<and> (\<forall>im. env_initial_margin (params s) bal = Inr im \<longrightarrow>
              balance s2 = balance s - of_nat (n_bands_hit s2 - n_bands_hit s) * im))
   \<and> (env_evaluate_orders t r s = Inr s' \<longrightarrow>
        (trades_info s' \<noteq> trades_info s \<longrightarrow>
           n_bands_hit s' = 0 \<and> side (position s') = None)
        \<and> (trades_info s' = trades_info s \<longrightarrow> n_bands_hit s \<le> n_bands_hit s'))"
proof (intro conjI)
  show "(\<forall>k > n_bands_hit s. ol k = open_long_k r k \<and> os k = open_short_k r k
        \<and> bl k = band_low_k r k \<and> bh k = band_high_k r k) \<longrightarrow>
      env_evaluate_orders t
        (r\<lparr> open_long_k := ol, open_short_k := os, band_low_k := bl, band_high_k := bh \<rparr>) s
      = env_evaluate_orders t r s"
    using env_step_above [of s ol r os bl bh t] by blast
  show "env_fill s t r bal i sd = Inr s1 \<longrightarrow> n_bands_hit s1 = n_bands_hit s + 1"
    using env_fill_Inr [of s t r bal i sd s1] by blast
  show "env_band_loop s t r bal is = Inr s2 \<longrightarrow>
        n_bands_hit s \<le> n_bands_hit s2 \<and> n_bands_hit s2 \<le> n_bands_hit s + length is
        \<and> (\<forall>im. env_initial_margin (params s) bal = Inr im \<longrightarrow>
              balance s2 = balance s - of_nat (n_bands_hit s2 - n_bands_hit s) * im)"
    using env_band_loop_count [of s t r bal "is" s2] by blast
  show "env_evaluate_orders t r s = Inr s' \<longrightarrow>
        (trades_info s' \<noteq> trades_info s \<longrightarrow>
           n_bands_hit s' = 0 \<and> side (position s') = None)
        \<and> (trades_info s' = trades_info s \<longrightarrow> n_bands_hit s \<le> n_bands_hit s')"
    using env_step_watermark [of t r s s'] by blast
qed

theorem watermark_discipline_witness:
  "n_bands_hit (ex_env_after 1 1) = 1
   \<and> open_long_k (ex_env_bar 6) 1 = Some True
   \<and> \<not> isl (env_evaluate_orders 129600 (ex_env_bar 6) (ex_env_after 1 1))
   \<and> env_evaluate_orders 129600
        ((ex_env_bar 6)\<lparr> open_long_k := (open_long_k (ex_env_bar 6))(1 \<mapsto> False),
           open_short_k := open_short_k (ex_env_bar 6),
           band_low_k := (band_low_k (ex_env_bar 6))(1 \<mapsto> 0),
           band_high_k := band_high_k (ex_env_bar 6) \<rparr>)
        (ex_env_after 1 1)
       = env_evaluate_orders 129600 (ex_env_bar 6) (ex_env_after 1 1)
   \<and> \<not> isl (env_fill (ex_env_after 1 1) 129600 (ex_env_bar 6) 900 1 Long)
   \<and> n_bands_hit (projr (env_fill (ex_env_after 1 1) 129600 (ex_env_bar 6) 900 1 Long)) = 2
   \<and> \<not> isl (env_band_loop (ex_env_after 1 1) 129600 (ex_env_bar 6) 900 [1 ..< 2])
   \<and> env_initial_margin (params (ex_env_after 1 1)) 900 = Inr 100
   \<and> n_bands_hit (projr (env_band_loop (ex_env_after 1 1) 129600 (ex_env_bar 6) 900 [1 ..< 2]))
       = 2
   \<and> balance (projr (env_band_loop (ex_env_after 1 1) 129600 (ex_env_bar 6) 900 [1 ..< 2]))
       = 800
   \<and> trades_info (projr (env_evaluate_orders 129600 (ex_env_bar 6) (ex_env_after 1 1)))
       = trades_info (ex_env_after 1 1)
   \<and> 1 \<le> n_bands_hit (projr (env_evaluate_orders 129600 (ex_env_bar 6) (ex_env_after 1 1)))
   \<and> \<not> isl (env_evaluate_orders 21600 (ex_env_bar 1) (ex_env_after 1 1))
   \<and> trades_info (projr (env_evaluate_orders 21600 (ex_env_bar 1) (ex_env_after 1 1)))
       \<noteq> trades_info (ex_env_after 1 1)
   \<and> n_bands_hit (projr (env_evaluate_orders 21600 (ex_env_bar 1) (ex_env_after 1 1))) = 0
   \<and> side (position (projr (env_evaluate_orders 21600 (ex_env_bar 1) (ex_env_after 1 1))))
       = None"
proof -
  let ?S = "ex_env_after 1 1" and ?R = "ex_env_bar 6" and ?Q = "ex_env_bar 1"
  let ?ol = "(open_long_k ?R)(1 \<mapsto> False)" and ?bl = "(band_low_k ?R)(1 \<mapsto> 0)"
  let ?F = "env_fill ?S 129600 ?R 900 1 Long"
  let ?L = "env_band_loop ?S 129600 ?R 900 [1 ..< 2]"
  let ?E = "env_evaluate_orders 129600 ?R ?S"
  let ?C = "env_evaluate_orders 21600 ?Q ?S"
  have n: "n_bands_hit ?S = 1" by code_simp
  have b: "balance ?S = 900" by code_simp
  have m: "open_long_k ?R 1 = Some True" by code_simp
  have im: "env_initial_margin (params ?S) 900 = Inr 100" by code_simp
  have f: "\<not> isl ?F" by code_simp
  have l: "\<not> isl ?L" by code_simp
  have e: "\<not> isl ?E" by code_simp
  have c: "\<not> isl ?C" by code_simp
  have te: "trades_info (projr ?E) = trades_info ?S" by code_simp
  have tc: "trades_info (projr ?C) \<noteq> trades_info ?S" by code_simp
  from f have f': "?F = Inr (projr ?F)" by simp
  from l have l': "?L = Inr (projr ?L)" by simp
  from e have e': "?E = Inr (projr ?E)" by simp
  from c have c': "?C = Inr (projr ?C)" by simp
  from n have h: "\<forall>k > n_bands_hit ?S. ?ol k = open_long_k ?R k
      \<and> open_short_k ?R k = open_short_k ?R k
      \<and> ?bl k = band_low_k ?R k \<and> band_high_k ?R k = band_high_k ?R k"
    by simp
  note th = watermark_discipline [where s = ?S and r = ?R and t = 129600
      and ol = ?ol and os = "open_short_k ?R" and bl = ?bl and bh = "band_high_k ?R"
      and bal = 900 and i = 1 and sd = Long and ?s1.0 = "projr ?F"
      and ?is = "[1 ..< 2]" and ?s2.0 = "projr ?L" and s' = "projr ?E"]
  note tk = watermark_discipline [where s = ?S and r = ?Q and t = 21600
      and s' = "projr ?C"]
  from th h have r1: "env_evaluate_orders 129600
        (?R\<lparr> open_long_k := ?ol, open_short_k := open_short_k ?R,
           band_low_k := ?bl, band_high_k := band_high_k ?R \<rparr>) ?S = ?E"
    by blast
  from th f' n have r2: "n_bands_hit (projr ?F) = 2" by simp
  from th l' have r3: "n_bands_hit ?S \<le> n_bands_hit (projr ?L)
      \<and> n_bands_hit (projr ?L) \<le> n_bands_hit ?S + length [1 ..< (2::nat)]
      \<and> (\<forall>im. env_initial_margin (params ?S) 900 = Inr im \<longrightarrow>
            balance (projr ?L)
              = balance ?S - of_nat (n_bands_hit (projr ?L) - n_bands_hit ?S) * im)"
    by blast
  have r4: "n_bands_hit (projr ?L) = 2" by code_simp
  from r3 im have "balance (projr ?L)
      = balance ?S - of_nat (n_bands_hit (projr ?L) - n_bands_hit ?S) * 100"
    by blast
  then have r5: "balance (projr ?L) = 800" unfolding r4 n b by simp
  from th e' te have "n_bands_hit ?S \<le> n_bands_hit (projr ?E)" by blast
  then have r6: "1 \<le> n_bands_hit (projr ?E)" unfolding n .
  from tk c' tc have r7: "n_bands_hit (projr ?C) = 0 \<and> side (position (projr ?C)) = None"
    by blast
  from n m e r1 f r2 l im r4 r5 te r6 c tc r7 show ?thesis by blast
qed
end
